theory Spec2Isabelle
  imports Main "HOL-Library.Word" "HOL-Library.Char_ord" "HOL-Library.List_Lexorder"
begin

section \<open>Values shared by the operations of VFS.js\<close>

text \<open>
  A JavaScript \<open>Error\<close> object as the operations of \<open>src/fruitmix/VFS.js\<close> build it:
  the message given to \<open>new Error\<close>, and the properties \<open>code\<close>, \<open>xcode\<close> and
  \<open>status\<close>, each absent (\<open>None\<close>) until the code assigns it.
\<close>

record error =
  message :: string
  code :: "string option"
  xcode :: "string option"
  status :: "nat option"

definition Error :: "string \<Rightarrow> error" where
  "Error msg = \<lparr>message = msg, code = None, xcode = None, status = None\<rparr>"

text \<open>
  An operation ends by calling its callback with an error or a value, or by an exception
  that nothing catches (a \<open>TypeError\<close> on a property of \<open>undefined\<close>, or thrown from
  inside an asynchronous callback).
\<close>

datatype 'a outcome = Callback "error + 'a" | Uncaught string

text \<open>A property that holds a string is truthy unless it is absent or the empty string.\<close>

definition truthy :: "string option \<Rightarrow> bool" where
  "truthy p = (case p of None \<Rightarrow> False | Some s \<Rightarrow> s \<noteq> [])"

subsection \<open>Paths (\<open>path.join\<close> of Node.js, POSIX flavour)\<close>

fun split_on :: "char \<Rightarrow> string \<Rightarrow> string list" where
  "split_on c [] = [[]]"
| "split_on c (x # xs) =
     (if x = c then [] # split_on c xs
      else (case split_on c xs of
              w # ws \<Rightarrow> (x # w) # ws
            | [] \<Rightarrow> [[x]]))"

text \<open>
  \<open>normalizeString\<close>: the segments are read left to right, the result is kept reversed
  in the accumulator. Empty segments and \<open>.\<close> are dropped; \<open>..\<close> removes the segment
  before it, is kept when the path may climb above its start, and is dropped at the root.
\<close>

fun normalizeString :: "bool \<Rightarrow> string list \<Rightarrow> string list \<Rightarrow> string list" where
  "normalizeString allowAboveRoot acc [] = rev acc"
| "normalizeString allowAboveRoot acc (s # ss) =
     (if s = [] \<or> s = ''.'' then normalizeString allowAboveRoot acc ss
      else if s = ''..'' then
        (case acc of
           [] \<Rightarrow> normalizeString allowAboveRoot (if allowAboveRoot then [''..''] else []) ss
         | a # as \<Rightarrow>
             (if a = ''..'' then
                normalizeString allowAboveRoot (if allowAboveRoot then ''..'' # acc else acc) ss
              else normalizeString allowAboveRoot as ss))
      else normalizeString allowAboveRoot (s # acc) ss)"

fun join_with :: "string \<Rightarrow> string list \<Rightarrow> string" where
  "join_with sep [] = []"
| "join_with sep [s] = s"
| "join_with sep (s # t # ss) = s @ sep @ join_with sep (t # ss)"

definition normalize :: "string \<Rightarrow> string" where
  "normalize p =
     (if p = [] then ''.''
      else
        (let isAbsolute = (hd p = CHR ''/'');
             trailingSeparator = (last p = CHR ''/'');
             q = join_with ''/'' (normalizeString (\<not> isAbsolute) [] (split_on CHR ''/'' p));
             q1 = (if q = [] \<and> \<not> isAbsolute then ''.'' else q);
             q2 = (if q1 \<noteq> [] \<and> trailingSeparator then q1 @ ''/'' else q1)
         in if isAbsolute then CHR ''/'' # q2 else q2))"

definition path_join :: "string list \<Rightarrow> string" where
  "path_join args =
     (let joined = join_with ''/'' (filter (\<lambda>a. a \<noteq> []) args)
      in if joined = [] then ''.'' else normalize joined)"

subsection \<open>Users, drives and tags (the collaborating stores)\<close>

record user =
  u_uuid :: string

text \<open>
  A drive record: \<open>privacy\<close> is \<open>true\<close>, \<open>false\<close> or neither (\<open>None\<close>);
  \<open>writelist\<close> is an array or something else (\<open>None\<close>).
\<close>

record drive =
  d_uuid :: string
  d_type :: string
  d_privacy :: "bool option"
  d_owner :: "string option"
  d_writelist :: "string list option"
  d_isDeleted :: bool

record tag =
  t_id :: int
  t_creator :: string
  t_deleted :: bool

definition userCanWriteDrive :: "user \<Rightarrow> drive \<Rightarrow> bool" where
  "userCanWriteDrive u d =
     (if d_privacy d = Some True \<or> d_type d = ''backup'' then Some (u_uuid u) = d_owner d
      else if d_privacy d = Some False then
        (case d_writelist d of
           Some wl \<Rightarrow> u_uuid u \<in> set wl
         | None \<Rightarrow> True)
      else False)"

subsection \<open>Nodes of the forest\<close>

record metadata =
  m_type :: string

record fileinfo =
  f_size :: nat
  f_hash :: "string option"
  f_tags :: "int list option"
  f_metadata :: "metadata option"
  f_archived :: "bool option"
  f_bctime :: "int option"
  f_bmtime :: "int option"

datatype kind = Directory | File fileinfo

text \<open>
  A node holds a reference to its parent, or none when it is a root: the chain of parents
  is a finite linked list, which the datatype's recursion through \<open>option\<close> expresses.
\<close>

datatype node =
  Node (n_uuid: string) (n_name: string) (n_mtime: int) (n_parent: "node option") (n_kind: kind)

text \<open>
  Modelled from the spec: \<open>vfs/node.js\<close> is not among the sources. \<open>root()\<close> returns
  the owning Root and \<open>nodepath()\<close> the root-to-node chain (spec 4.1); \<open>abspath()\<close> is
  the drive directory joined with the names on that chain (a root is named by its uuid).
\<close>

fun root :: "node \<Rightarrow> node" where
  "root (Node u n m None k) = Node u n m None k"
| "root (Node u n m (Some p) k) = root p"

fun nodepath :: "node \<Rightarrow> node list" where
  "nodepath (Node u n m None k) = [Node u n m None k]"
| "nodepath (Node u n m (Some p) k) = nodepath p @ [Node u n m (Some p) k]"

subsection \<open>The disk as the extended-attribute reader sees it\<close>

text \<open>
  File content is a sequence of extents (the storage layer concatenates files extent by
  extent); the size of a file is the sum of the lengths of its extents.
\<close>

record extent =
  ext_id :: nat
  ext_len :: nat

record entry =
  en_type :: string
  en_uuid :: string
  en_hash :: "string option"
  en_tags :: "int list option"
  en_mtime :: int
  en_content :: "extent list"

definition content_size :: "extent list \<Rightarrow> nat" where
  "content_size c = sum_list (map ext_len c)"

record xstat =
  x_uuid :: string
  x_type :: string
  x_name :: string
  x_mtime :: int
  x_size :: nat
  x_hash :: "string option"
  x_tags :: "int list option"

text \<open>The calls an operation makes on the collaborators outside VFS.js, in order.\<close>

datatype call =
    ReadXstat string
  | Rimraf string
  | BtrfsConcat string "string list"
  | Lstat string
  | ForceXstat string
  | Rename string string
  | FsRmdir string
  | DirRead string
  | UpdateFileTags string

record vfs =
  drives :: "drive list"
  tags :: "tag list"
  uuidMap :: "string \<rightharpoonup> node"
  timedFiles :: "node list"
  driveDir :: string
  tmpDir :: string
  disk :: "string \<rightharpoonup> entry"
  calls :: "call list"

definition absolutePath :: "vfs \<Rightarrow> node \<Rightarrow> string" where
  "absolutePath v nd = path_join (driveDir v # map n_name (nodepath nd))"

text \<open>\<open>Map.get\<close> with a key that may be \<open>undefined\<close>: no node is stored under it.\<close>

definition uuidMap_get :: "vfs \<Rightarrow> string option \<Rightarrow> node option" where
  "uuidMap_get v k = (case k of None \<Rightarrow> None | Some s \<Rightarrow> uuidMap v s)"

subsection \<open>The property bag of the directory operations\<close>

record props =
  p_driveUUID :: "string option"
  p_dirUUID :: "string option"
  p_name :: string
  p_hash :: "string option"
  p_data :: "string option"
  p_sha256 :: "string option"
  p_tags :: "int list option"

section \<open>Resolving a directory: \<open>DIR\<close>, \<open>dirGET\<close>, \<open>READDIR\<close>\<close>

definition with_status :: "string \<Rightarrow> nat \<Rightarrow> error" where
  "with_status msg st = (Error msg)\<lparr>status := Some st\<rparr>"

definition DIR :: "vfs \<Rightarrow> user \<Rightarrow> props \<Rightarrow> error + node" where
  "DIR v u pr =
     (let driveUUID = p_driveUUID pr in
      if truthy driveUUID \<and>
         (case find (\<lambda>d. Some (d_uuid d) = driveUUID) (drives v) of
            None \<Rightarrow> True
          | Some specified \<Rightarrow> d_isDeleted specified \<or> \<not> userCanWriteDrive u specified)
      then Inl (with_status ''drive not found'' 404)
      else
        (case uuidMap_get v (p_dirUUID pr) of
           None \<Rightarrow> Inl (with_status ''dir not found'' 404)
         | Some dir \<Rightarrow>
             (case find (\<lambda>d. d_uuid d = n_uuid (root dir)) (drives v) of
                None \<Rightarrow> Inl (with_status ''dir not found'' 404)
              | Some drv \<Rightarrow>
                  if d_isDeleted drv \<or> \<not> userCanWriteDrive u drv
                  then Inl (with_status ''dir not found'' 404)
                  else if truthy driveUUID \<and> Some (d_uuid drv) \<noteq> driveUUID
                  then Inl (with_status ''dir moved elsewhere'' 301)
                  else Inr dir)))"


section \<open>\<open>RMDIR\<close>\<close>

text \<open>
  \<open>fs.rmdir\<close> belongs to the operating system: its verdict (an error, or none) is the
  argument \<open>rmdir_err\<close>. On success the directory is gone from the disk and the parent
  directory is asked to re-read itself. The callback receives no error in either case.
\<close>

definition RMDIR :: "error option \<Rightarrow> vfs \<Rightarrow> user \<Rightarrow> props \<Rightarrow> (error + unit) \<times> vfs" where
  "RMDIR rmdir_err v u pr =
     (case DIR v u pr of
        Inl err \<Rightarrow> (Inl err, v)
      | Inr dir \<Rightarrow>
          (case n_parent dir of
             None \<Rightarrow> (Inl (Error ''root dir cannot be removed''), v)
           | Some pdir \<Rightarrow>
               (let dirPath = absolutePath v dir;
                    v1 = v\<lparr>calls := calls v @ [FsRmdir dirPath]\<rparr>
                in case rmdir_err of
                     Some e \<Rightarrow> (Inr (), v1)
                   | None \<Rightarrow>
                       (Inr (), v1\<lparr>disk := (disk v1)(dirPath := None),
                                    calls := calls v1 @ [DirRead (n_uuid pdir)]\<rparr>))))"

section \<open>\<open>dirGET\<close> and \<open>READDIR\<close>\<close>

record pathitem =
  pi_uuid :: string
  pi_name :: string
  pi_mtime :: int

record combined =
  c_path :: "pathitem list"
  c_entries :: "xstat list"

definition isBackupDrive :: "vfs \<Rightarrow> string option \<Rightarrow> bool" where
  "isBackupDrive v driveUUID =
     (case find (\<lambda>x. Some (d_uuid x) = driveUUID) (drives v) of
        None \<Rightarrow> False
      | Some drv \<Rightarrow> d_type drv = ''backup'')"

text \<open>
  \<open>Directory.read\<close> is not among the sources: what it reports for a directory (an error
  or the entries) is the argument \<open>read\<close>. A drive that is not in the drive list is
  \<open>undefined\<close>, and reading a property of it throws.
\<close>

definition dirGET ::
  "(node \<Rightarrow> error + xstat list) \<Rightarrow> vfs \<Rightarrow> user \<Rightarrow> props \<Rightarrow> combined outcome" where
  "dirGET read v u pr =
     (case uuidMap_get v (p_dirUUID pr) of
        None \<Rightarrow> Callback (Inl (with_status ''dir not found'' 404))
      | Some dir \<Rightarrow>
          (case find (\<lambda>d. d_uuid d = n_uuid (root dir)) (drives v) of
             None \<Rightarrow> Uncaught ''TypeError''
           | Some drv \<Rightarrow>
               if truthy (p_driveUUID pr) \<and> p_driveUUID pr \<noteq> Some (d_uuid drv)
               then Callback (Inl (with_status ''drive does not contain dir'' 403))
               else if \<not> userCanWriteDrive u drv
               then Callback (Inl (with_status ''permission denied'' 403))
               else
                 (case read dir of
                    Inl err \<Rightarrow> Callback (Inl (err\<lparr>status := Some 500\<rparr>))
                  | Inr entries \<Rightarrow>
                      Callback (Inr \<lparr>c_path = map (\<lambda>d. \<lparr>pi_uuid = n_uuid d, pi_name = n_name d,
                                                         pi_mtime = \<bar>n_mtime d\<bar>\<rparr>) (nodepath dir),
                                     c_entries = entries\<rparr>))))"

text \<open>
  The backup subsystem's own \<open>READDIR\<close> is not among the sources: its answer is the
  argument \<open>backup_READDIR\<close>.
\<close>

definition READDIR ::
  "xstat list outcome \<Rightarrow> (node \<Rightarrow> error + xstat list) \<Rightarrow> vfs \<Rightarrow> user \<Rightarrow> props
     \<Rightarrow> xstat list outcome" where
  "READDIR backup_READDIR read v u pr =
     (if isBackupDrive v (p_driveUUID pr) then backup_READDIR
      else
        (case dirGET read v u pr of
           Uncaught t \<Rightarrow> Uncaught t
         | Callback (Inl err) \<Rightarrow> Callback (Inl err)
         | Callback (Inr c) \<Rightarrow> Callback (Inr (c_entries c))))"

section \<open>Tags: \<open>ADDTAGS\<close>, \<open>REMOVETAGS\<close>, \<open>SETTAGS\<close>\<close>

subsection \<open>JavaScript's arrays, sets and default sort\<close>

fun digits :: "nat \<Rightarrow> string" where
  "digits n = (if n < 10 then [''0123456789'' ! n]
               else digits (n div 10) @ [''0123456789'' ! (n mod 10)])"

declare digits.simps [simp del]

definition to_string :: "int \<Rightarrow> string" where
  "to_string i = (if i < 0 then CHR ''-'' # digits (nat (- i)) else digits (nat i))"

text \<open>
  \<open>Array.from(new Set(xs))\<close>: the elements of \<open>xs\<close> in the order of their first
  occurrence.
\<close>

definition from_Set :: "'a list \<Rightarrow> 'a list" where
  "from_Set xs = foldl (\<lambda>acc x. if x \<in> set acc then acc else acc @ [x]) [] xs"

text \<open>
  \<open>Array.prototype.sort\<close> without a comparator orders the elements by their string
  conversions (so 10 comes before 9), and is stable.
\<close>

definition js_sort :: "int list \<Rightarrow> int list" where
  "js_sort xs = sort_key to_string xs"

subsection \<open>The extended-attribute reader\<close>

definition basename :: "string \<Rightarrow> string" where
  "basename p = last (split_on CHR ''/'' p)"

definition xstat_of :: "string \<Rightarrow> entry \<Rightarrow> xstat" where
  "xstat_of p e = \<lparr>x_uuid = en_uuid e, x_type = en_type e, x_name = basename p,
                   x_mtime = en_mtime e, x_size = content_size (en_content e),
                   x_hash = en_hash e, x_tags = en_tags e\<rparr>"

text \<open>
  Modelled from the spec: \<open>lib/xstat.js\<close> is not among the sources. The reader is an
  atomic read/write oracle for the per-entry record (uuid, type, size, hash, modification
  time, tags) kept in extended attributes (spec 2). \<open>readXstat\<close> fails with \<open>ENOENT\<close>
  on a path that does not exist and with \<open>EUNSUPPORTED\<close> on an entry that is neither a
  file nor a directory. \<open>updateFileTags\<close> replaces the tags of the file that has the
  given uuid (an empty array removes the property) and reports the updated record.
\<close>

definition readXstat :: "vfs \<Rightarrow> string \<Rightarrow> (error + xstat) \<times> vfs" where
  "readXstat v p =
     (let v1 = v\<lparr>calls := calls v @ [ReadXstat p]\<rparr>
      in case disk v p of
           None \<Rightarrow> (Inl ((Error ''ENOENT'')\<lparr>code := Some ''ENOENT''\<rparr>), v1)
         | Some e \<Rightarrow>
             if en_type e = ''file'' \<or> en_type e = ''directory'' then (Inr (xstat_of p e), v1)
             else (Inl ((Error ''unsupported type'')\<lparr>xcode := Some ''EUNSUPPORTED''\<rparr>), v1))"

definition updateFileTags :: "vfs \<Rightarrow> string \<Rightarrow> string \<Rightarrow> int list \<Rightarrow> (error + xstat) \<times> vfs" where
  "updateFileTags v p uuid ts =
     (let v1 = v\<lparr>calls := calls v @ [UpdateFileTags p]\<rparr>
      in case disk v p of
           None \<Rightarrow> (Inl ((Error ''ENOENT'')\<lparr>code := Some ''ENOENT''\<rparr>), v1)
         | Some e \<Rightarrow>
             if en_type e \<noteq> ''file'' then (Inl ((Error ''not a file'')\<lparr>code := Some ''ENOTFILE''\<rparr>), v1)
             else if en_uuid e \<noteq> uuid then
               (Inl ((Error ''uuid mismatch'')\<lparr>code := Some ''EUUIDMISMATCH''\<rparr>), v1)
             else
               (let e1 = e\<lparr>en_tags := (if ts = [] then None else Some ts)\<rparr>
                in (Inr (xstat_of p e1), v1\<lparr>disk := (disk v1)(p \<mapsto> e1)\<rparr>)))"

subsection \<open>The operations\<close>

text \<open>
  The three operations open with the same \<open>try\<close> block: the tags must be a non-empty
  array of non-negative integers (elements that are not integers are outside the type
  \<open>int list\<close>), and each must be a tag of the store that the user created and that is
  not deleted; the validated array is handed on. \<open>forEach\<close> throws at the first id that is not; the \<open>catch\<close> sets status
  400.
\<close>

definition tag_known :: "vfs \<Rightarrow> user \<Rightarrow> int \<Rightarrow> bool" where
  "tag_known v u i =
     (case find (\<lambda>t. t_id t = i \<and> t_creator t = u_uuid u \<and> \<not> t_deleted t) (tags v) of
        None \<Rightarrow> False
      | Some t \<Rightarrow> t_creator t = u_uuid u)"

definition validate_tags :: "vfs \<Rightarrow> user \<Rightarrow> props \<Rightarrow> error + int list" where
  "validate_tags v u pr =
     (case p_tags pr of
        None \<Rightarrow> Inl (with_status ''invalid tags'' 400)
      | Some ts \<Rightarrow>
          if ts = [] \<or> \<not> list_all (\<lambda>i. 0 \<le> i) ts then Inl (with_status ''invalid tags'' 400)
          else
            (case find (\<lambda>i. \<not> tag_known v u i) ts of
               Some i \<Rightarrow> Inl (with_status (''tag id '' @ to_string i @ '' not found'') 400)
             | None \<Rightarrow> Inr ts))"

definition not_a_file :: error where
  "not_a_file = (Error ''not a file'')\<lparr>code := Some ''ENOTFILE''\<rparr>"

definition ADDTAGS :: "vfs \<Rightarrow> user \<Rightarrow> props \<Rightarrow> (error + xstat) \<times> vfs" where
  "ADDTAGS v u pr =
     (case validate_tags v u pr of
        Inl err \<Rightarrow> (Inl err, v)
      | Inr tags0 \<Rightarrow>
          (case DIR v u pr of
             Inl err \<Rightarrow> (Inl err, v)
           | Inr dir \<Rightarrow>
               (let ts = js_sort (from_Set tags0);
                    filePath = path_join [absolutePath v dir, p_name pr]
                in case readXstat v filePath of
                     (Inl err, v1) \<Rightarrow> (Inl err, v1)
                   | (Inr xs, v1) \<Rightarrow>
                       if x_type xs \<noteq> ''file'' then (Inl not_a_file, v1)
                       else
                         (let oldTags = (case x_tags xs of None \<Rightarrow> [] | Some ot \<Rightarrow> ot);
                              newTags = js_sort (from_Set (oldTags @ ts))
                          in if length newTags = length oldTags then (Inr xs, v1)
                             else updateFileTags v1 filePath (x_uuid xs) newTags))))"

definition REMOVETAGS :: "vfs \<Rightarrow> user \<Rightarrow> props \<Rightarrow> (error + xstat) \<times> vfs" where
  "REMOVETAGS v u pr =
     (case validate_tags v u pr of
        Inl err \<Rightarrow> (Inl err, v)
      | Inr tags0 \<Rightarrow>
          (let ts = js_sort (from_Set tags0)
           in case DIR v u pr of
                Inl err \<Rightarrow> (Inl err, v)
              | Inr dir \<Rightarrow>
                  (let filePath = path_join [absolutePath v dir, p_name pr]
                   in case readXstat v filePath of
                        (Inl err, v1) \<Rightarrow> (Inl err, v1)
                      | (Inr xs, v1) \<Rightarrow>
                          if x_type xs \<noteq> ''file'' then (Inl not_a_file, v1)
                          else
                            (case x_tags xs of
                               None \<Rightarrow> (Inr xs, v1)
                             | Some xtags \<Rightarrow>
                                 (let newTags = foldl (\<lambda>acc i. if i \<in> set ts then acc else acc @ [i])
                                                  [] xtags
                                  in updateFileTags v1 filePath (x_uuid xs) newTags)))))"

definition SETTAGS :: "vfs \<Rightarrow> user \<Rightarrow> props \<Rightarrow> (error + xstat) \<times> vfs" where
  "SETTAGS v u pr =
     (case validate_tags v u pr of
        Inl err \<Rightarrow> (Inl err, v)
      | Inr tags0 \<Rightarrow>
          (let ts = js_sort (from_Set tags0)
           in case DIR v u pr of
                Inl err \<Rightarrow> (Inl err, v)
              | Inr dir \<Rightarrow>
                  (let filePath = path_join [absolutePath v dir, p_name pr]
                   in case readXstat v filePath of
                        (Inl err, v1) \<Rightarrow> (Inl err, v1)
                      | (Inr xs, v1) \<Rightarrow>
                          if x_type xs \<noteq> ''file'' then (Inl not_a_file, v1)
                          else updateFileTags v1 filePath (x_uuid xs) ts)))"

text \<open>The tag set recorded on disk for an entry, and for a path (empty when there is no tags property).\<close>

definition entry_tags :: "entry \<Rightarrow> int set" where
  "entry_tags e = (case en_tags e of None \<Rightarrow> {} | Some ts \<Rightarrow> set ts)"

definition disk_tags :: "vfs \<Rightarrow> string \<Rightarrow> int set" where
  "disk_tags v p = (case disk v p of None \<Rightarrow> {} | Some e \<Rightarrow> entry_tags e)"

section \<open>\<open>APPEND\<close>\<close>

subsection \<open>Hex strings and the combined hash\<close>

definition hexval :: "char \<Rightarrow> nat option" where
  "hexval c =
     (let n = of_char c :: nat in
      if 48 \<le> n \<and> n \<le> 57 then Some (n - 48)
      else if 97 \<le> n \<and> n \<le> 102 then Some (n - 87)
      else if 65 \<le> n \<and> n \<le> 70 then Some (n - 55)
      else None)"

text \<open>
  \<open>Buffer.from(s, 'hex')\<close>: one byte for every two hex digits, up to the first pair
  that is not two hex digits; a last single character is dropped.
\<close>

fun fromHex :: "string \<Rightarrow> 8 word list" where
  "fromHex (a # b # rest) =
     (case hexval a of
        None \<Rightarrow> []
      | Some x \<Rightarrow>
          (case hexval b of
             None \<Rightarrow> []
           | Some y \<Rightarrow> of_nat (16 * x + y) # fromHex rest))"
| "fromHex [a] = []"
| "fromHex [] = []"

text \<open>
  \<open>combineHash\<close>: an argument that is a string is decoded from hex, anything else is
  passed on as it is, and \<open>Buffer.concat\<close> throws a \<open>TypeError\<close> on \<open>undefined\<close>. The
  SHA-256 of the crypto library, as the hex digest of a byte sequence, is the argument
  \<open>sha\<close>.
\<close>

definition combineHash ::
  "(8 word list \<Rightarrow> string) \<Rightarrow> string option \<Rightarrow> string option \<Rightarrow> string + string" where
  "combineHash sha a b =
     (case a of
        None \<Rightarrow> Inl ''TypeError''
      | Some a0 \<Rightarrow>
          (case b of
             None \<Rightarrow> Inl ''TypeError''
           | Some b0 \<Rightarrow> Inr (sha (fromHex a0 @ fromHex b0))))"

subsection \<open>The storage primitives \<open>APPEND\<close> calls\<close>

text \<open>
  What the outside world decides during one \<open>APPEND\<close>: the fresh name of the temporary
  file, the errors of the storage calls (if any), the modification time that \<open>fs.lstat\<close>
  reports for the target (another writer may have touched it since it was read), and the
  modification time the new file gets.
\<close>

record io =
  io_uuid :: string
  io_concat_err :: "error option"
  io_lstat :: "error + int"
  io_forceXstat_err :: "error option"
  io_rename_err :: "error option"
  io_now :: int

definition TMPFILE :: "vfs \<Rightarrow> io \<Rightarrow> string" where
  "TMPFILE v io = path_join [tmpDir v, io_uuid io]"

definition at_or_under :: "string \<Rightarrow> string \<Rightarrow> bool" where
  "at_or_under p q = (q = p \<or> take (length p + 1) q = p @ ''/'')"

text \<open>\<open>rimraf\<close> removes a path and everything beneath it; its errors are ignored.\<close>

definition rimraf :: "string \<Rightarrow> vfs \<Rightarrow> vfs" where
  "rimraf p v = v\<lparr>disk := (\<lambda>q. if at_or_under p q then None else disk v q),
                  calls := calls v @ [Rimraf p]\<rparr>"

definition enoent :: error where
  "enoent = (Error ''ENOENT'')\<lparr>code := Some ''ENOENT''\<rparr>"

text \<open>
  Modelled from the spec: \<open>lib/btrfs.js\<close> and \<open>lib/xstat.js\<close> are not among the
  sources. Concatenate-files puts the content of the first file followed by the content of
  the second into a new file (spec 4.2); it cannot succeed when one of them is missing.
  \<open>forceXstat\<close> writes the given uuid and hash into the record of a file and reports
  the record (spec 2).
\<close>

definition btrfsConcat ::
  "io \<Rightarrow> vfs \<Rightarrow> string \<Rightarrow> string \<Rightarrow> string option \<Rightarrow> error option \<times> vfs" where
  "btrfsConcat io v tmp target data =
     (let v1 = v\<lparr>calls := calls v @ [BtrfsConcat tmp (target # (case data of None \<Rightarrow> [] | Some d \<Rightarrow> [d]))]\<rparr>
      in case io_concat_err io of
           Some err \<Rightarrow> (Some err, v1)
         | None \<Rightarrow>
             (case disk v target of
                None \<Rightarrow> (Some enoent, v1)
              | Some t \<Rightarrow>
                  (case data of
                     None \<Rightarrow> (Some enoent, v1)
                   | Some d \<Rightarrow>
                       (case disk v d of
                          None \<Rightarrow> (Some enoent, v1)
                        | Some de \<Rightarrow>
                            (None, v1\<lparr>disk := (disk v1)(tmp \<mapsto>
                                \<lparr>en_type = ''file'', en_uuid = [], en_hash = None, en_tags = None,
                                 en_mtime = io_now io,
                                 en_content = en_content t @ en_content de\<rparr>)\<rparr>)))))"

definition forceXstat ::
  "io \<Rightarrow> vfs \<Rightarrow> string \<Rightarrow> string \<Rightarrow> string option \<Rightarrow> (error + xstat) \<times> vfs" where
  "forceXstat io v p uuid h =
     (let v1 = v\<lparr>calls := calls v @ [ForceXstat p]\<rparr>
      in case io_forceXstat_err io of
           Some err \<Rightarrow> (Inl err, v1)
         | None \<Rightarrow>
             (case disk v p of
                None \<Rightarrow> (Inl enoent, v1)
              | Some e \<Rightarrow>
                  (let e1 = e\<lparr>en_uuid := uuid, en_hash := h\<rparr>
                   in (Inr (xstat_of p e1), v1\<lparr>disk := (disk v1)(p \<mapsto> e1)\<rparr>))))"

definition fs_rename :: "io \<Rightarrow> vfs \<Rightarrow> string \<Rightarrow> string \<Rightarrow> error option \<times> vfs" where
  "fs_rename io v src dst =
     (let v1 = v\<lparr>calls := calls v @ [Rename src dst]\<rparr>
      in case io_rename_err io of
           Some err \<Rightarrow> (Some err, v1)
         | None \<Rightarrow>
             (case disk v src of
                None \<Rightarrow> (Some enoent, v1)
              | Some e \<Rightarrow> (None, v1\<lparr>disk := (disk v1)(src := None, dst \<mapsto> e)\<rparr>)))"

subsection \<open>The operation\<close>

text \<open>
  \<open>cb\<close> wraps the callback: whatever the outcome, the caller's temporary data file is
  removed when \<open>props.data\<close> is truthy.
\<close>

definition cb :: "props \<Rightarrow> error + xstat \<Rightarrow> vfs \<Rightarrow> xstat outcome \<times> vfs" where
  "cb pr r v =
     (Callback r, (case p_data pr of
                     None \<Rightarrow> v
                   | Some d \<Rightarrow> if d \<noteq> [] then rimraf d v else v))"

definition ealign :: error where
  "ealign = \<lparr>message = ''not a multiple of 1G'', code = Some ''EALIGN'', xcode = None,
             status = Some 403\<rparr>"

definition ehashmismatch :: "string option \<Rightarrow> error" where
  "ehashmismatch actual =
     \<lparr>message = ''hash mismatch, actual: '' @ (case actual of None \<Rightarrow> ''undefined'' | Some h \<Rightarrow> h),
      code = Some ''EHASHMISMATCH'', xcode = None, status = Some 403\<rparr>"

definition APPEND ::
  "(8 word list \<Rightarrow> string) \<Rightarrow> io \<Rightarrow> vfs \<Rightarrow> user \<Rightarrow> props \<Rightarrow> xstat outcome \<times> vfs" where
  "APPEND sha io v u pr =
     (case DIR v u pr of
        Inl err \<Rightarrow> cb pr (Inl err) v
      | Inr dir \<Rightarrow>
          (let target = path_join [absolutePath v dir, p_name pr]
           in case readXstat v target of
                (Inl err, v1) \<Rightarrow>
                  cb pr (Inl (if code err = Some ''ENOENT'' \<or> code err = Some ''EISDIR''
                                  \<or> xcode err = Some ''EUNSUPPORTED''
                               then err\<lparr>status := Some 403\<rparr> else err)) v1
              | (Inr xs, v1) \<Rightarrow>
                  if x_type xs \<noteq> ''file'' then
                    cb pr (Inl \<lparr>message = ''not a file'', code = Some ''EISDIR'', xcode = None,
                                status = Some 403\<rparr>) v1
                  else if x_size xs mod (1024 * 1024 * 1024) \<noteq> 0 then cb pr (Inl ealign) v1
                  else if x_hash xs \<noteq> p_hash pr then cb pr (Inl (ehashmismatch (x_hash xs))) v1
                  else
                    (let tmp = TMPFILE v io
                     in case btrfsConcat io v1 tmp target (p_data pr) of
                          (Some err, v2) \<Rightarrow> cb pr (Inl err) v2
                        | (None, v2) \<Rightarrow>
                            (let v3 = (case p_data pr of None \<Rightarrow> v2 | Some d \<Rightarrow> rimraf d v2);
                                 v4 = v3\<lparr>calls := calls v3 @ [Lstat target]\<rparr>
                             in case io_lstat io of
                                  Inl err \<Rightarrow> cb pr (Inl err) v4
                                | Inr mtime \<Rightarrow>
                                    if mtime \<noteq> x_mtime xs then
                                      cb pr (Inl \<lparr>message = ''race detected'', code = Some ''ERACE'',
                                                  xcode = None, status = Some 403\<rparr>) v4
                                    else
                                      (case (if x_size xs = 0 then Inr (p_sha256 pr)
                                             else map_sum id Some
                                                    (combineHash sha (p_hash pr) (p_sha256 pr))) of
                                         Inl t \<Rightarrow> (Uncaught t, v4)
                                       | Inr h \<Rightarrow>
                                           (case forceXstat io v4 tmp (x_uuid xs) h of
                                              (Inl err, v5) \<Rightarrow> cb pr (Inl err) v5
                                            | (Inr xstat2, v5) \<Rightarrow>
                                                (case fs_rename io v5 tmp target of
                                                   (Some err, v6) \<Rightarrow> cb pr (Inl err) v6
                                                 | (None, v6) \<Rightarrow>
                                                     cb pr (Inr (xstat2\<lparr>x_name := p_name pr\<rparr>)) v6)))))))"

section \<open>\<open>QUERY\<close> and \<open>iterateList\<close>\<close>

subsection \<open>JavaScript's strings and numbers\<close>

text \<open>
  \<open>String.prototype.toLowerCase\<close> folds every cased letter of Unicode, not only the
  letters A to Z. It belongs to the language, and the letters it knows are beyond what is
  written out here: it is an argument, \<open>toLowerCase\<close>, of every function that filters by
  name, and the theorems hold for every such function.
\<close>

text \<open>\<open>a.includes(b)\<close>: \<open>b\<close> occurs in \<open>a\<close> at some position.\<close>

definition js_includes :: "string \<Rightarrow> string \<Rightarrow> bool" where
  "js_includes a b = list_ex (\<lambda>i. take (length b) (drop i a) = b) [0..<Suc (length a)]"

text \<open>The white space that \<open>parseInt\<close> skips, as far as a \<open>char\<close> can hold it.\<close>

definition is_space :: "char \<Rightarrow> bool" where
  "is_space c = (of_char c \<in> {9, 10, 11, 12, 13, 32, 160 :: nat})"

text \<open>
  A number of JavaScript that \<open>parseInt\<close> can return: an integer that a double holds,
  \<open>NaN\<close>, or an infinity. \<open>Number.isInteger\<close> is true of the first kind only.
\<close>

datatype jsnum = Finite int | NaN | PosInfinity | NegInfinity

fun bitlen :: "nat \<Rightarrow> nat" where
  "bitlen n = (if n = 0 then 0 else Suc (bitlen (n div 2)))"

declare bitlen.simps [simp del]

text \<open>
  The double nearest to a natural number (ties to the even significand), or none when
  the number rounds beyond the largest double: up to \<open>2 ^ 53\<close> every natural number is a
  double, above it only the 53 leading bits are kept.
\<close>

definition to_double :: "nat \<Rightarrow> nat option" where
  "to_double n =
     (if n < 9007199254740992 then Some n
      else
        (let k = bitlen n - 53;
             q = n div 2 ^ k;
             r = n mod 2 ^ k;
             h = 2 ^ (k - 1);
             q1 = (if h < r \<or> (r = h \<and> odd q) then q + 1 else q);
             m = q1 * 2 ^ k
         in if 2 ^ 1024 \<le> m then None else Some m))"

fun digit_prefix :: "nat \<Rightarrow> string \<Rightarrow> nat list" where
  "digit_prefix r [] = []"
| "digit_prefix r (c # cs) =
     (case hexval c of
        None \<Rightarrow> []
      | Some d \<Rightarrow> if d < r then d # digit_prefix r cs else [])"

text \<open>
  \<open>parseInt\<close> with one argument: white space, a sign and a \<open>0x\<close> prefix are skipped,
  then the longest run of digits is read; without a digit the result is \<open>NaN\<close>.
  The digits are read exactly and the value is rounded to a double, so a long run of
  digits loses its low bits or becomes an infinity.
\<close>

definition parseInt :: "string \<Rightarrow> jsnum" where
  "parseInt s =
     (let s1 = dropWhile is_space s;
          neg = (s1 \<noteq> [] \<and> hd s1 = CHR ''-'');
          s2 = (if s1 \<noteq> [] \<and> (hd s1 = CHR ''-'' \<or> hd s1 = CHR ''+'') then tl s1 else s1);
          hex = (take 2 s2 = ''0x'' \<or> take 2 s2 = ''0X'');
          r = (if hex then 16 else 10);
          ds = digit_prefix r (if hex then drop 2 s2 else s2);
          n = foldl (\<lambda>a d. a * r + d) 0 ds
      in if ds = [] then NaN
         else
           (case to_double n of
              None \<Rightarrow> if neg then NegInfinity else PosInfinity
            | Some d \<Rightarrow> Finite (if neg then - int d else int d)))"

text \<open>
  Modelled from the spec: \<open>lib/assertion.js\<close> is not among the sources. A uuid is
  written as 36 characters: hex digits in groups of 8, 4, 4, 4 and 12, separated by
  hyphens (as \<open>UUID_MIN\<close> and \<open>UUID_MAX\<close> in \<open>QUERY\<close> are).
\<close>

definition isUUID :: "string \<Rightarrow> bool" where
  "isUUID s =
     (length s = 36
      \<and> list_all (\<lambda>i. if i \<in> {8, 13, 18, 23} then s ! i = CHR ''-'' else hexval (s ! i) \<noteq> None)
           [0..<36])"

text \<open>
  An array used as a number (\<open>i < places\<close>) is its elements joined by commas, read as a
  numeric literal. The empty text is 0 and a run of decimal digits is its value; every
  other text is taken to be \<open>NaN\<close> (\<open>None\<close>). The literal forms left out (sign,
  fraction, exponent, radix prefix, \<open>Infinity\<close>, surrounding white space) have at most
  two hyphens, so no text built from strings that passed \<open>isUUID\<close> is among them.
\<close>

definition array_to_number :: "string list \<Rightarrow> nat option" where
  "array_to_number xs =
     (let t = join_with '','' xs
      in if list_all (\<lambda>c. 48 \<le> (of_char c :: nat) \<and> (of_char c :: nat) \<le> 57) t
         then Some (foldl (\<lambda>a c. a * 10 + (of_char c - 48)) 0 t)
         else None)"

fun find_index :: "('a \<Rightarrow> bool) \<Rightarrow> 'a list \<Rightarrow> nat option" where
  "find_index P [] = None"
| "find_index P (x # xs) =
     (if P x then Some 0 else map_option Suc (find_index P xs))"

subsection \<open>Arguments and results\<close>

record qprops =
  q_places :: "string option"
  q_order :: "string option"
  q_starti :: "string option"
  q_starte :: "string option"
  q_last :: "string option"
  q_count :: "string option"
  q_countOnly :: "string option"
  q_groupBy :: "string option"
  q_class :: "string option"
  q_types :: "string option"
  q_tags :: "string option"
  q_name :: "string option"
  q_fileOnly :: "string option"

text \<open>
  The variables of \<open>QUERY\<close> after its checks; \<open>None\<close> is \<open>undefined\<close>. The tags are
  the numbers that \<open>parseInt\<close> returned, \<open>NaN\<close> and the infinities among them.
\<close>

record qargs =
  a_order :: string
  a_startTime :: "int option"
  a_startUUID :: "string option"
  a_startExclusive :: "bool option"
  a_lastIndex :: "int option"
  a_lastType :: "string option"
  a_lastPath :: "string list option"
  a_count :: "int option"
  a_places :: "string list"
  a_types :: "string list option"
  a_tags :: "jsnum list option"
  a_name :: "string option"
  a_countOnly :: "bool option"
  a_groupBy :: "string option"
  a_fileOnly :: bool

text \<open>The record that \<open>match\<close> writes for a file.\<close>

record qrecord =
  r_uuid :: string
  r_pdir :: string
  r_name :: string
  r_size :: "nat option"
  r_mtime :: int
  r_hash :: "string option"
  r_tags :: "int list option"
  r_metadata :: "metadata option"
  r_place :: nat
  r_archived :: "bool option"
  r_bctime :: "int option"
  r_bmtime :: "int option"
  r_namepath :: "string list"

text \<open>
  What the callback of a query receives: a count, the counts per place, the path of the
  temporary file that holds the JSON array of records, or (from the walk over the tree) an
  array in memory.
\<close>

datatype query_result =
    Count nat
  | Groups "(string \<times> nat) list"
  | TmpFile string
  | Records "qrecord list"

definition EInval :: "string \<Rightarrow> 'a outcome" where
  "EInval msg = Callback (Inl (with_status msg 400))"

subsection \<open>The checks of \<open>QUERY\<close>\<close>

text \<open>
  The permission loop \<open>for (let i = 0; i < places; i++)\<close>, given the indices it runs
  through. \<open>places[i]\<close> beyond the end is \<open>undefined\<close>; a drive that is not in the list
  is \<open>undefined\<close>, and \<open>userCanWriteDrive\<close> throws on it.
\<close>

fun check_permission :: "vfs \<Rightarrow> user \<Rightarrow> string list \<Rightarrow> nat list \<Rightarrow> unit outcome option" where
  "check_permission v u places [] = None"
| "check_permission v u places (i # is) =
     (let place = (if i < length places then Some (places ! i) else None)
      in case uuidMap_get v place of
           None \<Rightarrow> Some (EInval (''place '' @ (case place of None \<Rightarrow> ''undefined'' | Some p \<Rightarrow> p)
                                  @ '' not found''))
         | Some dir \<Rightarrow>
             (case find (\<lambda>d. d_uuid d = n_uuid (root dir)) (drives v) of
                None \<Rightarrow> Some (Uncaught ''TypeError'')
              | Some drv \<Rightarrow>
                  if \<not> userCanWriteDrive u drv
                  then Some (EInval (''place '' @ (case place of None \<Rightarrow> ''undefined'' | Some p \<Rightarrow> p)
                                     @ '' not found''))
                  else check_permission v u places is))"

definition loop_indices :: "string list \<Rightarrow> nat list" where
  "loop_indices places = (case array_to_number places of None \<Rightarrow> [] | Some n \<Rightarrow> [0..<n])"

text \<open>
  Each check of \<open>QUERY\<close> either returns through \<open>EInval\<close> or goes on; \<open>and_then\<close>
  passes a value on and keeps an error or an exception as the outcome.
\<close>

definition and_then :: "'a outcome \<Rightarrow> ('a \<Rightarrow> 'b outcome) \<Rightarrow> 'b outcome" where
  "and_then m f =
     (case m of
        Callback (Inr x) \<Rightarrow> f x
      | Callback (Inl e) \<Rightarrow> Callback (Inl e)
      | Uncaught t \<Rightarrow> Uncaught t)"

definition ok :: "'a \<Rightarrow> 'a outcome" where
  "ok x = Callback (Inr x)"

definition parse_places :: "vfs \<Rightarrow> user \<Rightarrow> qprops \<Rightarrow> string list outcome" where
  "parse_places v u q =
     (case q_places q of
        None \<Rightarrow> EInval ''places not provided''
      | Some ps \<Rightarrow>
          if ps = [] then EInval ''places not provided''
          else
            (let places = split_on CHR ''.'' ps
             in if \<not> list_all isUUID places then EInval ''invalid places''
                else if length places \<noteq> length (from_Set places)
                then EInval ''places has duplicate elements''
                else
                  (case check_permission v u places (loop_indices places) of
                     Some (Callback (Inl e)) \<Rightarrow> Callback (Inl e)
                   | Some (Uncaught t) \<Rightarrow> Uncaught t
                   | Some (Callback (Inr x)) \<Rightarrow> ok places
                   | None \<Rightarrow> ok places)))"

definition parse_order :: "qprops \<Rightarrow> string outcome" where
  "parse_order q =
     (if truthy (q_order q) then
        (case q_order q of
           Some ord \<Rightarrow> if ord \<in> set [''newest'', ''oldest'', ''find''] then ok ord
                       else EInval ''invalid order''
         | None \<Rightarrow> ok ''newest'')
      else ok ''newest'')"

definition UUID_MIN :: string where
  "UUID_MIN = ''00000000-0000-4000-0000-000000000000''"

definition UUID_MAX :: string where
  "UUID_MAX = ''ffffffff-ffff-4fff-ffff-ffffffffffff''"

text \<open>\<open>starti\<close> and \<open>starte\<close> are read alike: a time, then optionally a dot and a uuid.\<close>

definition parse_start :: "string \<Rightarrow> string \<Rightarrow> string \<Rightarrow> (int \<times> string) outcome" where
  "parse_start ord label str =
     (let split = split_on CHR ''.'' str
      in if length split > 2 then EInval (''invalid '' @ label)
         else
           (case parseInt (case split of [] \<Rightarrow> [] | a # rest \<Rightarrow> a) of
              Finite startTime \<Rightarrow>
                (case split of
                   a # b # rest \<Rightarrow>
                     if \<not> isUUID b then EInval (''invalid '' @ label) else ok (startTime, b)
                 | _ \<Rightarrow> ok (startTime, if ord = ''newest'' then UUID_MAX else UUID_MIN))
            | _ \<Rightarrow> EInval (''invalid '' @ label)))"

definition parse_last :: "string \<Rightarrow> (int \<times> string \<times> string list) outcome" where
  "parse_last str =
     (if CHR ''.'' \<notin> set str then EInval ''invalid last''
      else
        (case parseInt (takeWhile (\<lambda>c. c \<noteq> CHR ''.'') str) of
           Finite lastIndex \<Rightarrow>
             if lastIndex < 0 then EInval ''invalid last''
             else
               (let str1 = tl (dropWhile (\<lambda>c. c \<noteq> CHR ''.'') str)
                in if CHR ''.'' \<notin> set str1 then EInval ''invalid last''
                   else
                     (let lastType = takeWhile (\<lambda>c. c \<noteq> CHR ''.'') str1;
                          lastPath = tl (dropWhile (\<lambda>c. c \<noteq> CHR ''.'') str1)
                      in if lastType \<noteq> ''directory'' \<and> lastType \<noteq> ''file''
                         then EInval ''invalid last type''
                         else if take 1 lastPath = ''/'' \<or> normalize lastPath \<noteq> lastPath
                         then EInval ''invalid last path''
                         else ok (lastIndex, lastType, split_on CHR ''/'' lastPath)))
         | _ \<Rightarrow> EInval ''invalid last''))"

definition parse_count :: "qprops \<Rightarrow> int option outcome" where
  "parse_count q =
     (case q_count q of
        None \<Rightarrow> ok None
      | Some c \<Rightarrow>
          if c = [] then ok None
          else
            (case parseInt c of
               Finite n \<Rightarrow> if n \<le> 0 then EInval ''invalid count'' else ok (Some n)
             | _ \<Rightarrow> EInval ''invalid count''))"

definition parse_groupBy :: "qprops \<Rightarrow> string option outcome" where
  "parse_groupBy q =
     (case q_groupBy q of
        None \<Rightarrow> ok None
      | Some g \<Rightarrow>
          if g = [] then ok None
          else if g \<noteq> ''place'' then EInval ''invalid groupBy''
          else ok (Some ''place''))"

definition parse_types :: "qprops \<Rightarrow> string list option outcome" where
  "parse_types q =
     (if truthy (q_class q) then
        (if q_class q = Some ''image'' then
           ok (Some [''JPEG'', ''PNG'', ''GIF'', ''TIFF'', ''BMP'', ''HEIC''])
         else if q_class q = Some ''video'' then
           ok (Some [''RM'', ''RMVB'', ''WMV'', ''AVI'', ''MPEG'', ''MP4'', ''3GP'', ''MOV'',
                     ''FLV'', ''MKV''])
         else if q_class q = Some ''audio'' then
           ok (Some [''RA'', ''WMA'', ''MP3'', ''MKA'', ''WAV'', ''APE'', ''FLAC''])
         else if q_class q = Some ''document'' then
           ok (Some [''DOC'', ''DOCX'', ''XLS'', ''XLSX'', ''PPT'', ''PPTX'', ''PDF'', ''KEY'',
                     ''NUMBERS'', ''PAGES''])
         else EInval ''invalid class'')
      else
        (case q_types q of
           None \<Rightarrow> ok None
         | Some t \<Rightarrow>
             if t = [] then ok None
             else
               (let types = split_on CHR ''.'' t
                in if \<not> list_all (\<lambda>ty. ty \<noteq> []) types then EInval ''invalid types''
                   else ok (Some types))))"

definition parse_tags :: "qprops \<Rightarrow> jsnum list option outcome" where
  "parse_tags q =
     (case q_tags q of
        None \<Rightarrow> ok None
      | Some t \<Rightarrow>
          if t = [] then ok None
          else
            (let tgs = map parseInt (split_on CHR ''.'' t)
             in if length tgs \<noteq> length (from_Set tgs) then EInval ''invalid tags''
                else ok (Some tgs)))"

definition parse_query :: "vfs \<Rightarrow> user \<Rightarrow> qprops \<Rightarrow> qargs outcome" where
  "parse_query v u q =
     and_then (parse_places v u q) (\<lambda>places.
     and_then (parse_order q) (\<lambda>ord.
     and_then
       (if ord = ''newest'' \<or> ord = ''oldest'' then
          (if truthy (q_starti q) then
             and_then (parse_start ord ''starti'' (case q_starti q of None \<Rightarrow> [] | Some x \<Rightarrow> x))
               (\<lambda>(t, uu). ok (Some t, Some uu, Some False, None, None, None))
           else if truthy (q_starte q) then
             and_then (parse_start ord ''starte'' (case q_starte q of None \<Rightarrow> [] | Some x \<Rightarrow> x))
               (\<lambda>(t, uu). ok (Some t, Some uu, Some True, None, None, None))
           else ok (None, None, None, None, None, None))
        else
          (if truthy (q_last q) then
             and_then (parse_last (case q_last q of None \<Rightarrow> [] | Some x \<Rightarrow> x))
               (\<lambda>(li, lt, lp). ok (None, None, None, Some li, Some lt, Some lp))
           else ok (None, None, None, None, None, None)))
       (\<lambda>(startTime, startUUID, startExclusive, lastIndex, lastType, lastPath).
     and_then (parse_count q) (\<lambda>cnt.
     and_then (parse_groupBy q) (\<lambda>groupBy.
     and_then (parse_types q) (\<lambda>types.
     and_then (parse_tags q) (\<lambda>tgs.
       ok \<lparr>a_order = ord, a_startTime = startTime, a_startUUID = startUUID,
           a_startExclusive = startExclusive, a_lastIndex = lastIndex, a_lastType = lastType,
           a_lastPath = lastPath, a_count = cnt, a_places = places, a_types = types,
           a_tags = tgs, a_name = (if truthy (q_name q) then q_name q else None),
           a_countOnly = (if truthy (q_countOnly q) then Some (q_countOnly q = Some ''true'')
                          else None),
           a_groupBy = groupBy, a_fileOnly = (q_fileOnly q = Some ''true'')\<rparr>)))))))"

subsection \<open>The time-sorted sequence of files\<close>

text \<open>
  Modelled from the spec: \<open>vfs/forest.js\<close> and \<open>vfs/file.js\<close> are not among the
  sources. The sequence is kept sorted by the key \<open>(mtime, uuid)\<close> (spec 3), so the time
  of a file is its \<open>mtime\<close>; \<open>indexOfByKey\<close> is the binary search for a key: the
  position of the first file whose key is not below it.
\<close>

definition getTime :: "node \<Rightarrow> int" where
  "getTime f = n_mtime f"

definition file_key :: "node \<Rightarrow> int \<times> string" where
  "file_key f = (getTime f, n_uuid f)"

definition key_less :: "int \<times> string \<Rightarrow> int \<times> string \<Rightarrow> bool" where
  "key_less a b = (fst a < fst b \<or> (fst a = fst b \<and> snd a < snd b))"

definition indexOfByKey :: "node list \<Rightarrow> int \<Rightarrow> string \<Rightarrow> nat" where
  "indexOfByKey files t uu = length (takeWhile (\<lambda>f. key_less (file_key f) (t, uu)) files)"

subsection \<open>\<open>iterateList\<close>\<close>

definition info_of :: "node \<Rightarrow> fileinfo option" where
  "info_of f = (case n_kind f of Directory \<Rightarrow> None | File fi \<Rightarrow> Some fi)"

text \<open>
  The variables that \<open>match\<close> updates: the number of matches, the count or the counts
  per place (for \<open>countOnly\<close>), and the records written to the temporary file so far. The
  file holds \<open>[\<close>, the records as JSON separated by commas, and \<open>]\<close>: it is the JSON
  array of the records, which the list stands for.
\<close>

record scan_state =
  findCounter :: nat
  res_count :: nat
  res_groups :: "(string \<times> nat) list"
  written :: "qrecord list"

fun bump_group :: "string \<Rightarrow> (string \<times> nat) list \<Rightarrow> (string \<times> nat) list" where
  "bump_group k [] = [(k, 1)]"
| "bump_group k ((k', c) # rest) =
     (if k' = k then (k', c + 1) # rest else (k', c) # bump_group k rest)"

definition make_record :: "qargs \<Rightarrow> node \<Rightarrow> nat \<Rightarrow> qrecord" where
  "make_record a file index =
     (let uuids = butlast (map n_uuid (nodepath file));
          from = (case find_index (\<lambda>x. x = a_places a ! index) uuids of
                    None \<Rightarrow> 0
                  | Some k \<Rightarrow> k + 1)
      in \<lparr>r_uuid = n_uuid file,
          r_pdir = (case n_parent file of None \<Rightarrow> [] | Some p \<Rightarrow> n_uuid p),
          r_name = n_name file,
          r_size = map_option f_size (info_of file),
          r_mtime = n_mtime file,
          r_hash = Option.bind (info_of file) f_hash,
          r_tags = Option.bind (info_of file) f_tags,
          r_metadata = Option.bind (info_of file) f_metadata,
          r_place = index,
          r_archived = Option.bind (info_of file) f_archived,
          r_bctime = Option.bind (info_of file) f_bctime,
          r_bmtime = Option.bind (info_of file) f_bmtime,
          r_namepath = drop from (map n_name (nodepath file))\<rparr>)"

text \<open>The filters of \<open>match\<close> before the place filter: name, types, tags.\<close>

definition name_ok :: "(string \<Rightarrow> string) \<Rightarrow> qargs \<Rightarrow> node \<Rightarrow> bool" where
  "name_ok toLowerCase a file =
     (case a_name a of
        None \<Rightarrow> True
      | Some nm \<Rightarrow> nm = [] \<or> js_includes (toLowerCase (n_name file)) (toLowerCase nm))"

definition types_ok :: "qargs \<Rightarrow> node \<Rightarrow> bool" where
  "types_ok a file =
     (case a_types a of
        None \<Rightarrow> True
      | Some ts \<Rightarrow>
          (case Option.bind (info_of file) f_metadata of
             None \<Rightarrow> False
           | Some m \<Rightarrow> m_type m \<in> set ts))"

definition tags_ok :: "qargs \<Rightarrow> node \<Rightarrow> bool" where
  "tags_ok a file =
     (case a_tags a of
        None \<Rightarrow> True
      | Some tgs \<Rightarrow>
          (case Option.bind (info_of file) f_tags of
             None \<Rightarrow> False
           | Some ft \<Rightarrow> list_all (\<lambda>t. case t of Finite i \<Rightarrow> i \<in> set ft | _ \<Rightarrow> False) tgs))"

definition place_index :: "qargs \<Rightarrow> node \<Rightarrow> nat option" where
  "place_index a file =
     find_index (\<lambda>place. place \<in> set (butlast (map n_uuid (nodepath file)))) (a_places a)"

definition match ::
  "(string \<Rightarrow> string) \<Rightarrow> qargs \<Rightarrow> node \<Rightarrow> scan_state \<Rightarrow> scan_state" where
  "match toLowerCase a file st =
     (if \<not> name_ok toLowerCase a file then st
      else if \<not> types_ok a file then st
      else if \<not> tags_ok a file then st
      else
        (case place_index a file of
           None \<Rightarrow> st
         | Some index \<Rightarrow>
             (let st1 = st\<lparr>findCounter := findCounter st + 1\<rparr>
              in if a_countOnly a = Some True then
                   (if a_groupBy a = Some ''place''
                    then st1\<lparr>res_groups := bump_group (a_places a ! index) (res_groups st1)\<rparr>
                    else st1\<lparr>res_count := res_count st1 + 1\<rparr>)
                 else st1\<lparr>written := written st1 @ [make_record a file index]\<rparr>)))"

text \<open>\<open>count && findCounter >= count\<close>\<close>

definition count_reached :: "qargs \<Rightarrow> scan_state \<Rightarrow> bool" where
  "count_reached a st =
     (case a_count a of
        None \<Rightarrow> False
      | Some n \<Rightarrow> n \<noteq> 0 \<and> int (findCounter st) \<ge> n)"

text \<open>
  Each of the two \<open>for\<close> statements of \<open>iterateList\<close> calls \<open>match\<close> on one file
  after another and breaks once the count is reached; \<open>scan\<close> is that iteration over the
  files in the order of the visit.
\<close>

fun scan ::
  "(string \<Rightarrow> string) \<Rightarrow> qargs \<Rightarrow> scan_state \<Rightarrow> node list \<Rightarrow> scan_state" where
  "scan toLowerCase a st [] = st"
| "scan toLowerCase a st (f # fs) =
     (let st1 = match toLowerCase a f st
      in if count_reached a st1 then st1 else scan toLowerCase a st1 fs)"

text \<open>
  The files the loop visits, in order. For \<open>newest\<close> the loop runs from \<open>startIndex\<close>
  down to 0, for \<open>oldest\<close> from \<open>startIndex\<close> up to the end.
\<close>

definition at_start :: "qargs \<Rightarrow> node \<Rightarrow> bool" where
  "at_start a file = (Some (getTime file) = a_startTime a \<and> Some (n_uuid file) = a_startUUID a)"

definition visited :: "qargs \<Rightarrow> node list \<Rightarrow> node list" where
  "visited a files =
     (if a_order a = ''newest'' then
        (case a_startTime a of
           None \<Rightarrow> rev files
         | Some t \<Rightarrow>
             (let si = indexOfByKey files t (case a_startUUID a of None \<Rightarrow> [] | Some x \<Rightarrow> x)
              in if si = length files then rev files
                 else if a_startExclusive a = Some True \<and> at_start a (files ! si)
                 then rev (take si files)
                 else rev (take (si + 1) files)))
      else
        (case a_startTime a of
           None \<Rightarrow> files
         | Some t \<Rightarrow>
             (let si = indexOfByKey files t (case a_startUUID a of None \<Rightarrow> [] | Some x \<Rightarrow> x)
              in if a_startExclusive a = Some True \<and> si < length files \<and> at_start a (files ! si)
                 then drop (si + 1) files
                 else drop si files)))"

text \<open>
  What the outside world decides during one query: the fresh name of the temporary file
  and whether the last write to it fails.
\<close>

record qio =
  qio_uuid :: string
  qio_write_err :: "error option"

text \<open>
  The result of \<open>iterateList\<close> is what the callback receives, and the temporary file
  written (its path and the array it holds), if one was created.
\<close>

definition iterateList ::
  "(string \<Rightarrow> string) \<Rightarrow> qio \<Rightarrow> vfs \<Rightarrow> user \<Rightarrow> qargs \<Rightarrow> query_result outcome \<times> (string \<times> qrecord list) option" where
  "iterateList toLowerCase qio v u a =
     (let tmpF = path_join [tmpDir v, qio_uuid qio];
          st = scan toLowerCase a
                 \<lparr>findCounter = 0, res_count = 0, res_groups = [], written = []\<rparr>
                 (visited a (timedFiles v))
      in if a_countOnly a = Some True then
           (Callback (Inr (if a_groupBy a = Some ''place'' then Groups (res_groups st)
                           else Count (res_count st))), None)
         else
           (case qio_write_err qio of
              Some err \<Rightarrow> (Callback (Inl err), Some (tmpF, written st))
            | None \<Rightarrow> (Callback (Inr (TmpFile tmpF)), Some (tmpF, written st))))"

subsection \<open>\<open>QUERY\<close>\<close>

text \<open>
  The walk over the tree (\<open>iterateTreeSync\<close>) rests on \<open>Directory.iterate\<close>, which is
  not among the sources: for the order \<open>find\<close> its answer (an exception it throws is
  caught and handed to the callback) is the argument \<open>iterateTreeSync\<close>.
\<close>

definition QUERY ::
  "(string \<Rightarrow> string) \<Rightarrow> (vfs \<Rightarrow> user \<Rightarrow> qargs \<Rightarrow> error + query_result) \<Rightarrow> qio \<Rightarrow> vfs \<Rightarrow> user \<Rightarrow> qprops
     \<Rightarrow> query_result outcome \<times> (string \<times> qrecord list) option" where
  "QUERY toLowerCase iterateTreeSync qio v u q =
     (case parse_query v u q of
        Uncaught t \<Rightarrow> (Uncaught t, None)
      | Callback (Inl e) \<Rightarrow> (Callback (Inl e), None)
      | Callback (Inr a) \<Rightarrow>
          if a_order a = ''newest'' \<or> a_order a = ''oldest''
          then iterateList toLowerCase qio v u a
          else (Callback (iterateTreeSync v u a), None))"

subsection \<open>The filters as the specification words them\<close>



section \<open>An example installation\<close>

text \<open>
  Alice owns one private drive. Its root holds the directory \<open>photos\<close>, which holds the
  file \<open>a.jpg\<close>. Bob is another user, with no access to Alice's drive.
\<close>

definition alice :: user where
  "alice = \<lparr>u_uuid = ''aaaaaaaa-aaaa-4aaa-8aaa-aaaaaaaaaaaa''\<rparr>"

definition bob :: user where
  "bob = \<lparr>u_uuid = ''bbbbbbbb-bbbb-4bbb-8bbb-bbbbbbbbbbbb''\<rparr>"

definition drive1 :: drive where
  "drive1 = \<lparr>d_uuid = ''11111111-1111-4111-8111-111111111111'', d_type = ''private'',
              d_privacy = Some True, d_owner = Some ''aaaaaaaa-aaaa-4aaa-8aaa-aaaaaaaaaaaa'',
              d_writelist = None, d_isDeleted = False\<rparr>"

definition root1 :: node where
  "root1 = Node ''11111111-1111-4111-8111-111111111111''
             ''11111111-1111-4111-8111-111111111111'' 100 None Directory"

definition photos :: node where
  "photos = Node ''22222222-2222-4222-8222-222222222222'' ''photos'' 200 (Some root1) Directory"

definition a_jpg :: node where
  "a_jpg = Node ''33333333-3333-4333-8333-333333333333'' ''a.jpg'' 300 (Some photos)
             (File \<lparr>f_size = 0, f_hash = None, f_tags = Some [1], f_metadata = None,
                    f_archived = None, f_bctime = None, f_bmtime = None\<rparr>)"

definition a_jpg_entry :: entry where
  "a_jpg_entry = \<lparr>en_type = ''file'', en_uuid = ''33333333-3333-4333-8333-333333333333'',
                   en_hash = None, en_tags = Some [1], en_mtime = 300, en_content = []\<rparr>"

definition vfs0 :: vfs where
  "vfs0 = \<lparr>drives = [drive1],
            tags = [\<lparr>t_id = 1, t_creator = ''aaaaaaaa-aaaa-4aaa-8aaa-aaaaaaaaaaaa'', t_deleted = False\<rparr>,
                    \<lparr>t_id = 2, t_creator = ''aaaaaaaa-aaaa-4aaa-8aaa-aaaaaaaaaaaa'', t_deleted = False\<rparr>],
            uuidMap = [''11111111-1111-4111-8111-111111111111'' \<mapsto> root1,
                       ''22222222-2222-4222-8222-222222222222'' \<mapsto> photos,
                       ''33333333-3333-4333-8333-333333333333'' \<mapsto> a_jpg],
            timedFiles = [a_jpg],
            driveDir = ''/data/drives'',
            tmpDir = ''/data/tmp'',
            disk = [''/data/drives/11111111-1111-4111-8111-111111111111/photos/a.jpg'' \<mapsto> a_jpg_entry],
            calls = []\<rparr>"

definition dir_props :: "string \<Rightarrow> props" where
  "dir_props dirUUID = \<lparr>p_driveUUID = None, p_dirUUID = Some dirUUID, p_name = ''a.jpg'',
                         p_hash = None, p_data = None, p_sha256 = None, p_tags = None\<rparr>"

definition tag_props :: "int list \<Rightarrow> props" where
  "tag_props ts = (dir_props ''22222222-2222-4222-8222-222222222222'')\<lparr>p_tags := Some ts\<rparr>"

definition a_jpg_path :: string where
  "a_jpg_path = ''/data/drives/11111111-1111-4111-8111-111111111111/photos/a.jpg''"

lemmas world_defs = vfs0_def alice_def bob_def drive1_def root1_def photos_def a_jpg_def
  a_jpg_entry_def dir_props_def tag_props_def a_jpg_path_def

text \<open>
  For \<open>APPEND\<close>: the root of Alice's drive also holds \<open>b.bin\<close> of exactly 1 GiB and
  \<open>c.bin\<close> of 5 bytes, both with recorded hash \<open>ab\<close>; an uploaded temporary file
  waits in the temporary directory. The digest used in the examples is a stand-in (it is
  not SHA-256): the theorems hold for every digest function.
\<close>

definition stand_in_sha :: "8 word list \<Rightarrow> string" where
  "stand_in_sha bs = concat (map (\<lambda>w. if w < 128 then ''0'' else ''1'') bs)"

definition b_bin_path :: string where
  "b_bin_path = ''/data/drives/11111111-1111-4111-8111-111111111111/b.bin''"

definition c_bin_path :: string where
  "c_bin_path = ''/data/drives/11111111-1111-4111-8111-111111111111/c.bin''"

definition upload_path :: string where
  "upload_path = ''/data/tmp/upload1''"

definition b_bin_entry :: entry where
  "b_bin_entry = \<lparr>en_type = ''file'', en_uuid = ''44444444-4444-4444-8444-444444444444'',
                   en_hash = Some ''ab'', en_tags = None, en_mtime = 500,
                   en_content = [\<lparr>ext_id = 1, ext_len = 1073741824\<rparr>]\<rparr>"

definition c_bin_entry :: entry where
  "c_bin_entry = \<lparr>en_type = ''file'', en_uuid = ''55555555-5555-4555-8555-555555555555'',
                   en_hash = Some ''ab'', en_tags = None, en_mtime = 500,
                   en_content = [\<lparr>ext_id = 2, ext_len = 5\<rparr>]\<rparr>"

definition upload_entry :: entry where
  "upload_entry = \<lparr>en_type = ''file'', en_uuid = [], en_hash = None, en_tags = None,
                    en_mtime = 800, en_content = [\<lparr>ext_id = 3, ext_len = 7\<rparr>]\<rparr>"

definition vfs1 :: vfs where
  "vfs1 = vfs0\<lparr>disk := (disk vfs0)(b_bin_path \<mapsto> b_bin_entry, c_bin_path \<mapsto> c_bin_entry,
                                    upload_path \<mapsto> upload_entry)\<rparr>"

definition append_props :: "string \<Rightarrow> string \<Rightarrow> string option \<Rightarrow> props" where
  "append_props dirUUID name h =
     \<lparr>p_driveUUID = None, p_dirUUID = Some dirUUID, p_name = name, p_hash = h,
      p_data = Some upload_path, p_sha256 = Some ''cd'', p_tags = None\<rparr>"

definition io0 :: "int \<Rightarrow> io" where
  "io0 mtime = \<lparr>io_uuid = ''66666666-6666-4666-8666-666666666666'', io_concat_err = None,
                io_lstat = Inr mtime, io_forceXstat_err = None, io_rename_err = None,
                io_now = 900\<rparr>"

lemmas append_world = vfs1_def b_bin_path_def c_bin_path_def upload_path_def b_bin_entry_def
  c_bin_entry_def upload_entry_def append_props_def io0_def stand_in_sha_def world_defs

text \<open>
  For \<open>QUERY\<close>: no failure of the temporary file, a stand-in for the walk over the
  tree, the folding of the letters A to Z as the lower-casing of the examples (whose names
  have no other cased letters), and a forest whose time-sorted sequence holds five files, four of them under
  \<open>photos\<close> and \<open>four.txt\<close> directly under the root.
\<close>

definition qio0 :: qio where
  "qio0 = \<lparr>qio_uuid = ''77777777-7777-4777-8777-777777777777'', qio_write_err = None\<rparr>"

definition query_props :: "string \<Rightarrow> qprops" where
  "query_props places =
     \<lparr>q_places = Some places, q_order = None, q_starti = None, q_starte = None, q_last = None,
      q_count = None, q_countOnly = None, q_groupBy = None, q_class = None, q_types = None,
      q_tags = None, q_name = None, q_fileOnly = None\<rparr>"

definition ascii_lower :: "string \<Rightarrow> string" where
  "ascii_lower s =
     map (\<lambda>c. let n = of_char c :: nat in if 65 \<le> n \<and> n \<le> 90 then char_of (n + 32) else c) s"

definition no_tree :: "vfs \<Rightarrow> user \<Rightarrow> qargs \<Rightarrow> error + query_result" where
  "no_tree v u a = Inr (Records [])"

definition plain_file :: "string \<Rightarrow> string \<Rightarrow> int \<Rightarrow> node \<Rightarrow> node" where
  "plain_file uuid name mtime parent =
     Node uuid name mtime (Some parent)
       (File \<lparr>f_size = 1, f_hash = None, f_tags = None, f_metadata = None,
              f_archived = None, f_bctime = None, f_bmtime = None\<rparr>)"

definition five_files :: "node list" where
  "five_files =
     [plain_file ''f1000000-0000-4000-8000-000000000001'' ''one.jpg'' 100 photos,
      plain_file ''f2000000-0000-4000-8000-000000000002'' ''two.jpg'' 200 photos,
      plain_file ''f3000000-0000-4000-8000-000000000003'' ''three.jpg'' 300 photos,
      plain_file ''f4000000-0000-4000-8000-000000000004'' ''four.txt'' 400 root1,
      plain_file ''f5000000-0000-4000-8000-000000000005'' ''five.jpg'' 500 photos]"

definition vfs2 :: vfs where
  "vfs2 = vfs0\<lparr>timedFiles := five_files\<rparr>"

definition newest3 :: qprops where
  "newest3 = (query_props ''22222222-2222-4222-8222-222222222222'')
               \<lparr>q_order := Some ''newest'', q_count := Some ''3''\<rparr>"

definition newest3_args :: qargs where
  "newest3_args =
     \<lparr>a_order = ''newest'', a_startTime = None, a_startUUID = None, a_startExclusive = None,
      a_lastIndex = None, a_lastType = None, a_lastPath = None, a_count = Some 3,
      a_places = [''22222222-2222-4222-8222-222222222222''], a_types = None, a_tags = None,
      a_name = None, a_countOnly = None, a_groupBy = None, a_fileOnly = False\<rparr>"

lemmas query_world = ascii_lower_def no_tree_def plain_file_def five_files_def vfs2_def newest3_def
  newest3_args_def qio0_def query_props_def world_defs

section \<open>Theorems\<close>

lemma DIR_root1: "DIR vfs0 alice (dir_props ''11111111-1111-4111-8111-111111111111'') = Inr root1"
  by (simp add: DIR_def vfs0_def alice_def dir_props_def truthy_def uuidMap_get_def
      root1_def drive1_def userCanWriteDrive_def)

lemma DIR_photos: "DIR vfs0 alice (dir_props ''22222222-2222-4222-8222-222222222222'') = Inr photos"
  by (simp add: DIR_def vfs0_def alice_def dir_props_def truthy_def uuidMap_get_def
      root1_def photos_def drive1_def userCanWriteDrive_def)

text \<open>
  C8. When the directory that \<open>RMDIR\<close> resolves is a Root (it has no parent), the
  callback receives the error \<open>root dir cannot be removed\<close> and the state is returned as
  it was: no call of \<open>fs.rmdir\<close> is added to the calls, and the forest still holds the
  root. Conversely, whenever \<open>RMDIR\<close> changes the state at all, the directory it resolved
  has a parent: only directories that are not roots are removed.
\<close>

theorem RMDIR_refuses_root:
  "(DIR v u pr = Inr dir \<and> n_parent dir = None \<longrightarrow>
      RMDIR rmdir_err v u pr = (Inl (Error ''root dir cannot be removed''), v))
   \<and> (snd (RMDIR rmdir_err v u pr) \<noteq> v \<longrightarrow>
        (\<exists>d pdir. DIR v u pr = Inr d \<and> n_parent d = Some pdir
           \<and> FsRmdir (absolutePath v d) \<in> set (calls (snd (RMDIR rmdir_err v u pr)))))"
  by (auto simp: RMDIR_def Let_def split: sum.splits option.splits)

theorem RMDIR_refuses_root_witness:
  "RMDIR None vfs0 alice (dir_props ''11111111-1111-4111-8111-111111111111'')
     = (Inl (Error ''root dir cannot be removed''), vfs0)
   \<and> uuidMap (snd (RMDIR None vfs0 alice (dir_props ''11111111-1111-4111-8111-111111111111'')))
        ''11111111-1111-4111-8111-111111111111'' = Some root1
   \<and> (\<exists>d pdir. DIR vfs0 alice (dir_props ''22222222-2222-4222-8222-222222222222'') = Inr d
         \<and> n_parent d = Some pdir)"
proof -
  have r: "n_parent root1 = None" by (simp add: root1_def)
  have m: "uuidMap vfs0 ''11111111-1111-4111-8111-111111111111'' = Some root1"
    by (simp add: vfs0_def)
  have p: "n_parent photos = Some root1" by (simp add: photos_def)
  from RMDIR_refuses_root [of vfs0 alice "dir_props ''11111111-1111-4111-8111-111111111111''" root1 None]
    DIR_root1 r
  have "RMDIR None vfs0 alice (dir_props ''11111111-1111-4111-8111-111111111111'')
          = (Inl (Error ''root dir cannot be removed''), vfs0)"
    by simp
  with m DIR_photos p show ?thesis by simp
qed


subsection \<open>Denial and absence\<close>

text \<open>
  \<open>DIR\<close> answers for a directory whose drive is missing, deleted or not writable by the
  user exactly as it answers for a directory that is not in the forest, whatever drive the
  caller names.
\<close>

lemma DIR_denial_is_absence:
  assumes "uuidMap_get v (p_dirUUID pr) = Some dir"
    and "case find (\<lambda>d. d_uuid d = n_uuid (root dir)) (drives v) of
           None \<Rightarrow> True
         | Some drv \<Rightarrow> d_isDeleted drv \<or> \<not> userCanWriteDrive u drv"
    and "uuidMap_get v (p_dirUUID pr') = None"
    and "p_driveUUID pr' = p_driveUUID pr"
  shows "DIR v u pr = DIR v u pr'"
  using assms by (auto simp: DIR_def Let_def split: option.splits)

text \<open>
  C7. \<open>READDIR\<close> goes through \<open>dirGET\<close>, not through \<open>DIR\<close>. For Bob, who cannot write
  Alice's drive, the directory \<open>photos\<close> that exists there is answered with
  \<open>permission denied\<close> and status 403, while a directory that does not exist is answered
  with \<open>dir not found\<close> and status 404: the two outcomes differ, so \<open>READDIR\<close> tells
  Bob that \<open>photos\<close> exists.
\<close>

theorem READDIR_denial_differs_from_absence:
  "READDIR bk rd vfs0 bob (dir_props ''22222222-2222-4222-8222-222222222222'')
     = Callback (Inl \<lparr>message = ''permission denied'', code = None, xcode = None, status = Some 403\<rparr>)
   \<and> READDIR bk rd vfs0 bob (dir_props ''99999999-9999-4999-8999-999999999999'')
     = Callback (Inl \<lparr>message = ''dir not found'', code = None, xcode = None, status = Some 404\<rparr>)
   \<and> DIR vfs0 bob (dir_props ''22222222-2222-4222-8222-222222222222'')
     = DIR vfs0 bob (dir_props ''99999999-9999-4999-8999-999999999999'')"
  by (simp add: READDIR_def dirGET_def isBackupDrive_def DIR_def uuidMap_get_def truthy_def
      userCanWriteDrive_def with_status_def Error_def world_defs)

subsection \<open>Tags\<close>

lemma set_from_Set_aux:
  "set (foldl (\<lambda>acc x. if x \<in> set acc then acc else acc @ [x]) a xs) = set a \<union> set xs"
  by (induction xs arbitrary: a) auto

lemma set_from_Set [simp]: "set (from_Set xs) = set xs"
  by (simp add: from_Set_def set_from_Set_aux)

lemma set_js_sort [simp]: "set (js_sort xs) = set xs"
  by (simp add: js_sort_def)

lemma set_remove_aux:
  "set (foldl (\<lambda>acc i. if i \<in> T then acc else acc @ [i]) a xs) = set a \<union> (set xs - T)"
  by (induction xs arbitrary: a) auto

lemma validate_empty:
  "p_tags pr = Some [] \<Longrightarrow> validate_tags v u pr = Inl (with_status ''invalid tags'' 400)"
  by (simp add: validate_tags_def)

lemmas tag_op_defs = ADDTAGS_def REMOVETAGS_def SETTAGS_def validate_tags_def tag_known_def
  DIR_def truthy_def uuidMap_get_def userCanWriteDrive_def absolutePath_def path_join_def
  normalize_def readXstat_def updateFileTags_def xstat_of_def js_sort_def from_Set_def
  to_string_def digits.simps Let_def basename_def content_size_def with_status_def Error_def

text \<open>
  C10. With \<open>tags = []\<close> each of \<open>SETTAGS\<close>, \<open>ADDTAGS\<close> and \<open>REMOVETAGS\<close> hands the
  callback the error \<open>invalid tags\<close> with status 400 and returns the state as it was,
  whatever the state, the user and the other properties are: no directory is resolved, no
  permission is looked at, no file is touched. And when \<open>SETTAGS\<close> succeeds, the record it
  reports carries a tags array that is not empty.
\<close>

theorem tag_ops_reject_empty:
  "(p_tags pr = Some [] \<longrightarrow>
      SETTAGS v u pr = (Inl (with_status ''invalid tags'' 400), v)
      \<and> ADDTAGS v u pr = (Inl (with_status ''invalid tags'' 400), v)
      \<and> REMOVETAGS v u pr = (Inl (with_status ''invalid tags'' 400), v))
   \<and> (SETTAGS v u pr = (Inr x, v') \<longrightarrow> (\<exists>ts. x_tags x = Some ts \<and> ts \<noteq> []))"
proof (intro conjI impI)
  assume e: "p_tags pr = Some []"
  show "SETTAGS v u pr = (Inl (with_status ''invalid tags'' 400), v)"
    by (simp add: SETTAGS_def validate_empty [OF e])
  show "ADDTAGS v u pr = (Inl (with_status ''invalid tags'' 400), v)"
    by (simp add: ADDTAGS_def validate_empty [OF e])
  show "REMOVETAGS v u pr = (Inl (with_status ''invalid tags'' 400), v)"
    by (simp add: REMOVETAGS_def validate_empty [OF e])
next
  assume s: "SETTAGS v u pr = (Inr x, v')"
  then obtain ts where v: "validate_tags v u pr = Inr ts"
    by (cases "validate_tags v u pr") (auto simp: SETTAGS_def)
  then have ne: "ts \<noteq> []"
    by (auto simp: validate_tags_def split: option.splits if_splits)
  then have "set (js_sort (from_Set ts)) \<noteq> {}" by simp
  then have ne2: "js_sort (from_Set ts) \<noteq> []" by (metis set_empty)
  from s v ne2 show "\<exists>ts. x_tags x = Some ts \<and> ts \<noteq> []"
    by (auto simp: SETTAGS_def Let_def readXstat_def updateFileTags_def xstat_of_def
        split: sum.splits option.splits if_splits prod.splits)
qed

lemma SETTAGS_example:
  "fst (SETTAGS vfs0 alice (tag_props [2]))
     = Inr \<lparr>x_uuid = ''33333333-3333-4333-8333-333333333333'', x_type = ''file'',
            x_name = ''a.jpg'', x_mtime = 300, x_size = 0, x_hash = None, x_tags = Some [2]\<rparr>"
  by (simp add: world_defs tag_op_defs)

theorem tag_ops_reject_empty_witness:
  "SETTAGS vfs0 alice (tag_props [])
     = (Inl \<lparr>message = ''invalid tags'', code = None, xcode = None, status = Some 400\<rparr>, vfs0)
   \<and> ADDTAGS vfs0 alice (tag_props [])
     = (Inl \<lparr>message = ''invalid tags'', code = None, xcode = None, status = Some 400\<rparr>, vfs0)
   \<and> REMOVETAGS vfs0 alice (tag_props [])
     = (Inl \<lparr>message = ''invalid tags'', code = None, xcode = None, status = Some 400\<rparr>, vfs0)
   \<and> (\<exists>ts. x_tags (projr (fst (SETTAGS vfs0 alice (tag_props [2])))) = Some ts \<and> ts \<noteq> [])"
proof -
  have e: "p_tags (tag_props []) = Some []" by (simp add: tag_props_def)
  have w: "with_status ''invalid tags'' 400
             = \<lparr>message = ''invalid tags'', code = None, xcode = None, status = Some 400\<rparr>"
    by (simp add: with_status_def Error_def)
  have s: "SETTAGS vfs0 alice (tag_props [2])
             = (Inr (projr (fst (SETTAGS vfs0 alice (tag_props [2])))),
                snd (SETTAGS vfs0 alice (tag_props [2])))"
    by (simp add: SETTAGS_example prod_eq_iff)
  from tag_ops_reject_empty [of "tag_props []" vfs0 alice] e w
    tag_ops_reject_empty [of "tag_props [2]" vfs0 alice, THEN conjunct2, rule_format, OF s]
  show ?thesis by simp
qed


subsection \<open>Adding tags and removing them again\<close>

lemma disk_tags_Some: "disk v p = Some e \<Longrightarrow> disk_tags v p = entry_tags e"
  by (simp add: disk_tags_def)

lemma entry_tags_upd:
  "entry_tags (e\<lparr>en_tags := (if xs = [] then None else Some xs)\<rparr>) = set xs"
  by (simp add: entry_tags_def)

lemma uuidMap_get_only: "uuidMap v' = uuidMap v \<Longrightarrow> uuidMap_get v' k = uuidMap_get v k"
  by (simp add: uuidMap_get_def split: option.splits)

lemma DIR_only: "drives v' = drives v \<Longrightarrow> uuidMap v' = uuidMap v \<Longrightarrow> DIR v' u pr = DIR v u pr"
  unfolding DIR_def by (simp only: uuidMap_get_only [of v' v])

lemma tag_known_only: "tags v' = tags v \<Longrightarrow> tag_known v' u = tag_known v u"
  by (simp add: tag_known_def fun_eq_iff)

lemma validate_only: "tags v' = tags v \<Longrightarrow> validate_tags v' u pr = validate_tags v u pr"
  unfolding validate_tags_def by (simp only: tag_known_only [of v' v])

lemma absolutePath_only: "driveDir v' = driveDir v \<Longrightarrow> absolutePath v' nd = absolutePath v nd"
  by (simp add: absolutePath_def)

lemma ADDTAGS_frame:
  "ADDTAGS v u pr = (r, v1) \<Longrightarrow>
     drives v1 = drives v \<and> tags v1 = tags v \<and> uuidMap v1 = uuidMap v \<and> driveDir v1 = driveDir v"
  by (auto simp: ADDTAGS_def Let_def readXstat_def updateFileTags_def
      split: sum.splits option.splits if_splits prod.splits)

text \<open>
  A successful \<open>ADDTAGS\<close> found a file, and leaves a file whose tag set lies between
  the old one and the old one joined with the new tags. (It is the old one when the
  merged array is as long as the old array, which the code takes for "nothing to add".)
\<close>

lemma ADDTAGS_success:
  assumes a: "ADDTAGS v u pr = (Inr x1, v1)"
  shows "\<exists>ts dir e e1. validate_tags v u pr = Inr ts \<and> DIR v u pr = Inr dir
           \<and> disk v (path_join [absolutePath v dir, p_name pr]) = Some e \<and> en_type e = ''file''
           \<and> disk v1 (path_join [absolutePath v dir, p_name pr]) = Some e1
           \<and> en_type e1 = ''file''
           \<and> entry_tags e \<subseteq> entry_tags e1 \<and> entry_tags e1 \<subseteq> entry_tags e \<union> set ts"
proof -
  from a obtain ts where v: "validate_tags v u pr = Inr ts"
    by (cases "validate_tags v u pr") (auto simp: ADDTAGS_def)
  from a v obtain dir where d: "DIR v u pr = Inr dir"
    by (cases "DIR v u pr") (auto simp: ADDTAGS_def)
  let ?fp = "path_join [absolutePath v dir, p_name pr]"
  from a v d obtain e where e: "disk v ?fp = Some e"
    by (cases "disk v ?fp") (auto simp: ADDTAGS_def readXstat_def Let_def)
  from a v d e have f: "en_type e = ''file''"
    by (auto simp: ADDTAGS_def readXstat_def Let_def xstat_of_def split: if_splits)
  let ?old = "case en_tags e of None \<Rightarrow> [] | Some ot \<Rightarrow> ot"
  let ?new = "js_sort (from_Set (?old @ js_sort (from_Set ts)))"
  have old: "set ?old = entry_tags e"
    by (simp add: entry_tags_def split: option.splits)
  have new: "set ?new = entry_tags e \<union> set ts"
    using old by simp
  show ?thesis
  proof (cases "length ?new = length ?old")
    case True
    with a v d e f have "disk v1 ?fp = Some e"
      by (auto simp: ADDTAGS_def readXstat_def Let_def xstat_of_def)
    with v d e f show ?thesis by auto
  next
    case False
    with a v d e f
    have "disk v1 ?fp = Some (e\<lparr>en_tags := (if ?new = [] then None else Some ?new)\<rparr>)"
      by (auto simp: ADDTAGS_def readXstat_def updateFileTags_def Let_def xstat_of_def)
    moreover have "entry_tags (e\<lparr>en_tags := (if ?new = [] then None else Some ?new)\<rparr>)
                     = entry_tags e \<union> set ts"
      using new by (simp only: entry_tags_upd)
    ultimately show ?thesis using v d e f by auto
  qed
qed

text \<open>\<open>REMOVETAGS\<close> on a file succeeds and leaves the file's tag set without the given tags.\<close>

lemma REMOVETAGS_file:
  assumes v: "validate_tags v u pr = Inr ts" and d: "DIR v u pr = Inr dir"
    and e: "disk v (path_join [absolutePath v dir, p_name pr]) = Some e"
    and f: "en_type e = ''file''"
  shows "\<exists>x2 v2. REMOVETAGS v u pr = (Inr x2, v2)
           \<and> disk_tags v2 (path_join [absolutePath v dir, p_name pr]) = entry_tags e - set ts"
proof (cases "en_tags e")
  case None
  with v d e f show ?thesis
    by (simp add: REMOVETAGS_def readXstat_def Let_def xstat_of_def disk_tags_def entry_tags_def)
next
  case (Some xtags)
  let ?new = "foldl (\<lambda>acc i. if i \<in> set (js_sort (from_Set ts)) then acc else acc @ [i]) [] xtags"
  have "set ?new = set xtags - set ts"
    using set_remove_aux [of "set (js_sort (from_Set ts))" "[]" xtags] by simp
  then have n: "set ?new = entry_tags e - set ts"
    using Some by (simp add: entry_tags_def)
  let ?fp = "path_join [absolutePath v dir, p_name pr]"
  let ?e1 = "e\<lparr>en_tags := (if ?new = [] then None else Some ?new)\<rparr>"
  let ?v1 = "v\<lparr>calls := calls v @ [ReadXstat ?fp]\<rparr>"
  let ?v2 = "?v1\<lparr>calls := calls ?v1 @ [UpdateFileTags ?fp]\<rparr>"
  from Some v d e f
  have r: "REMOVETAGS v u pr = (Inr (xstat_of ?fp ?e1), ?v2\<lparr>disk := (disk ?v2)(?fp \<mapsto> ?e1)\<rparr>)"
    by (simp add: REMOVETAGS_def readXstat_def updateFileTags_def Let_def xstat_of_def)
  have "disk_tags (?v2\<lparr>disk := (disk ?v2)(?fp \<mapsto> ?e1)\<rparr>) ?fp = entry_tags ?e1"
    by (simp add: disk_tags_Some)
  also have "\<dots> = entry_tags e - set ts"
    using n by (simp only: entry_tags_upd)
  finally show ?thesis using r by blast
qed

text \<open>
  C6, as the claim states it, fails where the file already carries one of the tags:
  \<open>a.jpg\<close> carries tag 1; after \<open>ADDTAGS\<close> with 1 and 2 it carries both, and
  \<open>REMOVETAGS\<close> with 1 and 2 leaves it without tags, not with tag 1.
\<close>

theorem tags_roundtrip_counterexample:
  "disk_tags vfs0 a_jpg_path = {1}
   \<and> fst (ADDTAGS vfs0 alice (tag_props [1, 2]))
       = Inr \<lparr>x_uuid = ''33333333-3333-4333-8333-333333333333'', x_type = ''file'',
              x_name = ''a.jpg'', x_mtime = 300, x_size = 0, x_hash = None, x_tags = Some [1, 2]\<rparr>
   \<and> fst (REMOVETAGS (snd (ADDTAGS vfs0 alice (tag_props [1, 2]))) alice (tag_props [1, 2]))
       = Inr \<lparr>x_uuid = ''33333333-3333-4333-8333-333333333333'', x_type = ''file'',
              x_name = ''a.jpg'', x_mtime = 300, x_size = 0, x_hash = None, x_tags = None\<rparr>
   \<and> disk_tags (snd (REMOVETAGS (snd (ADDTAGS vfs0 alice (tag_props [1, 2]))) alice
                      (tag_props [1, 2]))) a_jpg_path = {}
   \<and> disk_tags (snd (REMOVETAGS (snd (ADDTAGS vfs0 alice (tag_props [1, 2]))) alice
                      (tag_props [1, 2]))) a_jpg_path \<noteq> disk_tags vfs0 a_jpg_path"
  by (simp add: world_defs tag_op_defs disk_tags_def entry_tags_def)

text \<open>
  C6, amended. When none of the tags of \<open>T\<close> is on the file before, a successful
  \<open>ADDTAGS\<close> with \<open>T\<close> followed by \<open>REMOVETAGS\<close> with \<open>T\<close> succeeds too and leaves
  the file with exactly the tag set it had before the \<open>ADDTAGS\<close>.
\<close>

theorem tags_roundtrip_disjoint:
  assumes a: "ADDTAGS v u pr = (Inr x1, v1)"
    and d: "DIR v u pr = Inr dir"
    and t: "p_tags pr = Some T"
    and dj: "disk_tags v (path_join [absolutePath v dir, p_name pr]) \<inter> set T = {}"
  shows "\<exists>x2 v2. REMOVETAGS v1 u pr = (Inr x2, v2)
           \<and> disk_tags v2 (path_join [absolutePath v dir, p_name pr])
               = disk_tags v (path_join [absolutePath v dir, p_name pr])"
proof -
  let ?fp = "path_join [absolutePath v dir, p_name pr]"
  from ADDTAGS_success [OF a] d obtain ts e e1 where
    v: "validate_tags v u pr = Inr ts" and e: "disk v ?fp = Some e"
    and e1: "disk v1 ?fp = Some e1" and f1: "en_type e1 = ''file''"
    and lo: "entry_tags e \<subseteq> entry_tags e1" and hi: "entry_tags e1 \<subseteq> entry_tags e \<union> set ts"
    by auto
  from v t have ts: "ts = T"
    by (auto simp: validate_tags_def split: if_splits option.splits)
  from ADDTAGS_frame [OF a] have fr: "drives v1 = drives v" "tags v1 = tags v"
    "uuidMap v1 = uuidMap v" "driveDir v1 = driveDir v" by auto
  have v1: "validate_tags v1 u pr = Inr ts" using v validate_only [OF fr(2)] by simp
  have d1: "DIR v1 u pr = Inr dir" using d DIR_only [OF fr(1) fr(3)] by simp
  have p1: "absolutePath v1 dir = absolutePath v dir" by (rule absolutePath_only [OF fr(4)])
  from REMOVETAGS_file [OF v1 d1, of e1] e1 f1 p1
  obtain x2 v2 where r: "REMOVETAGS v1 u pr = (Inr x2, v2)"
    and dt: "disk_tags v2 ?fp = entry_tags e1 - set ts" by auto
  from dj e have "entry_tags e \<inter> set T = {}" by (simp add: disk_tags_Some)
  with lo hi ts have "entry_tags e1 - set ts = entry_tags e" by auto
  with r dt e show ?thesis by (simp add: disk_tags_Some)
qed

lemma ADDTAGS_example:
  "fst (ADDTAGS vfs0 alice (tag_props [2]))
     = Inr \<lparr>x_uuid = ''33333333-3333-4333-8333-333333333333'', x_type = ''file'',
            x_name = ''a.jpg'', x_mtime = 300, x_size = 0, x_hash = None, x_tags = Some [1, 2]\<rparr>"
  by (simp add: world_defs tag_op_defs)

lemma DIR_tag_props: "DIR vfs0 alice (tag_props ts) = Inr photos"
  by (simp add: DIR_def truthy_def uuidMap_get_def userCanWriteDrive_def world_defs)

lemma path_a_jpg: "path_join [absolutePath vfs0 photos, p_name (tag_props ts)] = a_jpg_path"
  by (simp add: world_defs absolutePath_def path_join_def normalize_def)

theorem tags_roundtrip_disjoint_witness:
  "disk_tags vfs0 a_jpg_path = {1}
   \<and> disk_tags (snd (ADDTAGS vfs0 alice (tag_props [2]))) a_jpg_path = {1, 2}
   \<and> (\<exists>x2 v2. REMOVETAGS (snd (ADDTAGS vfs0 alice (tag_props [2]))) alice (tag_props [2])
                  = (Inr x2, v2)
         \<and> disk_tags v2 a_jpg_path = {1})"
proof -
  have a: "ADDTAGS vfs0 alice (tag_props [2])
             = (Inr (projr (fst (ADDTAGS vfs0 alice (tag_props [2])))),
                snd (ADDTAGS vfs0 alice (tag_props [2])))"
    by (simp add: ADDTAGS_example prod_eq_iff)
  have t: "p_tags (tag_props [2]) = Some [2]" by (simp add: tag_props_def)
  have d0: "disk_tags vfs0 a_jpg_path = {1}"
    by (simp add: disk_tags_def entry_tags_def world_defs)
  have d1: "disk_tags (snd (ADDTAGS vfs0 alice (tag_props [2]))) a_jpg_path = {1, 2}"
    by (simp add: world_defs tag_op_defs disk_tags_def entry_tags_def insert_commute)
  have dj: "disk_tags vfs0 (path_join [absolutePath vfs0 photos, p_name (tag_props [2])])
              \<inter> set [2] = {}"
    by (simp add: path_a_jpg d0)
  from tags_roundtrip_disjoint [OF a DIR_tag_props t dj] d0 d1
  show ?thesis by (simp add: path_a_jpg)
qed


subsection \<open>\<open>APPEND\<close>\<close>

lemmas append_defs = APPEND_def cb_def rimraf_def at_or_under_def btrfsConcat_def forceXstat_def
  fs_rename_def TMPFILE_def combineHash_def hexval_def ealign_def ehashmismatch_def enoent_def
  DIR_def truthy_def uuidMap_get_def userCanWriteDrive_def absolutePath_def path_join_def
  normalize_def readXstat_def xstat_of_def basename_def content_size_def with_status_def
  Error_def Let_def

lemma readXstat_file:
  "disk v p = Some e \<Longrightarrow> en_type e = ''file'' \<Longrightarrow>
     readXstat v p = (Inr (xstat_of p e), v\<lparr>calls := calls v @ [ReadXstat p]\<rparr>)"
  by (simp add: readXstat_def Let_def)

lemma xstat_of_simps [simp]:
  "x_type (xstat_of p e) = en_type e" "x_size (xstat_of p e) = content_size (en_content e)"
  "x_hash (xstat_of p e) = en_hash e" "x_uuid (xstat_of p e) = en_uuid e"
  "x_mtime (xstat_of p e) = en_mtime e"
  by (simp_all add: xstat_of_def)

text \<open>
  What \<open>cb\<close> does to the state: it removes the caller's temporary data file and nothing
  else. The forest is as before, so is every path that is not at or beneath the data file,
  and the only call added is that \<open>rimraf\<close>.
\<close>

lemma disk_cb:
  "(\<And>d. p_data pr = Some d \<Longrightarrow> \<not> at_or_under d q) \<Longrightarrow> disk (snd (cb pr r w)) q = disk w q"
  by (simp add: cb_def rimraf_def split: option.splits)

lemma cb_frame:
  "fst (cb pr r w) = Callback r"
  "uuidMap (snd (cb pr r w)) = uuidMap w"
  "timedFiles (snd (cb pr r w)) = timedFiles w"
  "calls (snd (cb pr r w))
     = calls w @ (case p_data pr of None \<Rightarrow> [] | Some d \<Rightarrow> if d \<noteq> [] then [Rimraf d] else [])"
  by (simp_all add: cb_def rimraf_def split: option.splits)

lemma APPEND_at_size_check:
  assumes d: "DIR v u pr = Inr dir"
    and e: "disk v (path_join [absolutePath v dir, p_name pr]) = Some e"
    and f: "en_type e = ''file''"
    and m: "content_size (en_content e) mod 1073741824 \<noteq> 0"
  shows "APPEND sha io v u pr
           = cb pr (Inl ealign)
               (v\<lparr>calls := calls v @ [ReadXstat (path_join [absolutePath v dir, p_name pr])]\<rparr>)"
  by (simp add: APPEND_def d Let_def readXstat_file [OF e f] f m)

lemma APPEND_at_hash_check:
  assumes d: "DIR v u pr = Inr dir"
    and e: "disk v (path_join [absolutePath v dir, p_name pr]) = Some e"
    and f: "en_type e = ''file''"
    and al: "content_size (en_content e) mod 1073741824 = 0"
    and mm: "en_hash e \<noteq> p_hash pr"
  shows "APPEND sha io v u pr
           = cb pr (Inl (ehashmismatch (en_hash e)))
               (v\<lparr>calls := calls v @ [ReadXstat (path_join [absolutePath v dir, p_name pr])]\<rparr>)"
  by (simp add: APPEND_def d Let_def readXstat_file [OF e f] f al mm)

text \<open>
  A successful \<open>APPEND\<close> passed every check and every storage call; the lemma collects
  what that says about the target before and after.
\<close>

lemma APPEND_success:
  assumes s: "APPEND sha io v u pr = (Callback (Inr x2), v')"
    and d: "DIR v u pr = Inr dir"
    and e: "disk v (path_join [absolutePath v dir, p_name pr]) = Some e"
  shows "en_type e = ''file'' \<and> content_size (en_content e) mod 1073741824 = 0
         \<and> en_hash e = p_hash pr
         \<and> (\<exists>h. (if content_size (en_content e) = 0 then Inr (p_sha256 pr)
                   else map_sum id Some (combineHash sha (p_hash pr) (p_sha256 pr))) = Inr h
                 \<and> x_hash x2 = h \<and> x_uuid x2 = en_uuid e \<and> x_name x2 = p_name pr
                 \<and> ((\<forall>dp. p_data pr = Some dp \<longrightarrow>
                          \<not> at_or_under dp (path_join [absolutePath v dir, p_name pr])) \<longrightarrow>
                      (\<exists>e' dp de. p_data pr = Some dp \<and> disk v dp = Some de
                         \<and> disk v' (path_join [absolutePath v dir, p_name pr]) = Some e'
                         \<and> en_type e' = ''file'' \<and> en_hash e' = h \<and> en_uuid e' = en_uuid e
                         \<and> en_content e' = en_content e @ en_content de)))"
proof -
  let ?t = "path_join [absolutePath v dir, p_name pr]"
  have f: "en_type e = ''file''"
  proof (rule ccontr)
    assume "en_type e \<noteq> ''file''"
    with s d e show False
      by (auto simp: APPEND_def Let_def readXstat_def cb_def xstat_of_def split: if_splits)
  qed
  note rx = readXstat_file [OF e f]
  have al: "content_size (en_content e) mod 1073741824 = 0"
  proof (rule ccontr)
    assume "content_size (en_content e) mod 1073741824 \<noteq> 0"
    from APPEND_at_size_check [OF d e f this, of sha io] s show False
      by (simp add: cb_def)
  qed
  have hh: "en_hash e = p_hash pr"
  proof (rule ccontr)
    assume "en_hash e \<noteq> p_hash pr"
    from APPEND_at_hash_check [OF d e f al this, of sha io] s show False
      by (simp add: cb_def)
  qed
  let ?v1 = "v\<lparr>calls := calls v @ [ReadXstat ?t]\<rparr>"
  let ?tmp = "TMPFILE v io"
  obtain ce v2 where c: "btrfsConcat io ?v1 ?tmp ?t (p_data pr) = (ce, v2)" by force
  let ?v3 = "case p_data pr of None \<Rightarrow> v2 | Some d \<Rightarrow> rimraf d v2"
  let ?v4 = "?v3\<lparr>calls := calls ?v3 @ [Lstat ?t]\<rparr>"
  let ?H = "if content_size (en_content e) = 0 then Inr (p_sha256 pr)
            else map_sum id Some (combineHash sha (p_hash pr) (p_sha256 pr))"
  from s d f al hh c have ce: "ce = None"
    by (cases ce) (auto simp: APPEND_def Let_def rx cb_def)
  from s d f al hh c ce obtain mt where l: "io_lstat io = Inr mt"
    by (cases "io_lstat io") (auto simp: APPEND_def Let_def rx cb_def)
  from s d f al hh c ce l have mt: "mt = en_mtime e"
    by (auto simp: APPEND_def Let_def rx cb_def split: if_splits)
  from s d f al hh c ce l mt obtain h where H: "?H = Inr h"
    by (cases ?H) (auto simp: APPEND_def Let_def rx cb_def)
  obtain fr v5 where fx: "forceXstat io ?v4 ?tmp (en_uuid e) h = (fr, v5)" by force
  from s d f al hh c ce l mt H fx obtain xstat2 where fr: "fr = Inr xstat2"
    by (cases fr) (auto simp: APPEND_def Let_def rx cb_def)
  obtain re v6 where rn: "fs_rename io v5 ?tmp ?t = (re, v6)" by force
  from s d f al hh c ce l mt H fx fr rn have re: "re = None"
    by (cases re) (auto simp: APPEND_def Let_def rx cb_def)
  from s d f al hh c ce l mt H fx fr rn re have x2: "x2 = xstat2\<lparr>x_name := p_name pr\<rparr>"
    by (auto simp: APPEND_def Let_def rx cb_def)
  from fx fr have xh: "x_hash xstat2 = h \<and> x_uuid xstat2 = en_uuid e"
    by (auto simp: forceXstat_def Let_def xstat_of_def split: option.splits)
  from s d f al hh c ce l mt H fx fr rn re have v': "v' = snd (cb pr (Inr x2) v6)"
    by (auto simp: APPEND_def Let_def rx cb_def)
  from c ce obtain dp de where dp: "p_data pr = Some dp" and de: "disk v dp = Some de"
    and v2: "disk v2 = (disk v)(?tmp \<mapsto> \<lparr>en_type = ''file'', en_uuid = [], en_hash = None,
                en_tags = None, en_mtime = io_now io, en_content = en_content e @ en_content de\<rparr>)"
    by (auto simp: btrfsConcat_def Let_def e split: option.splits)
  from fx fr obtain e0 where e0: "disk ?v4 ?tmp = Some e0"
    and v5: "disk v5 = (disk ?v4)(?tmp \<mapsto> e0\<lparr>en_uuid := en_uuid e, en_hash := h\<rparr>)"
    by (auto simp: forceXstat_def Let_def split: option.splits)
  from e0 dp v2 have e0': "e0 = \<lparr>en_type = ''file'', en_uuid = [], en_hash = None,
                en_tags = None, en_mtime = io_now io, en_content = en_content e @ en_content de\<rparr>"
    by (auto simp: rimraf_def split: if_splits)
  from rn re v5 have v6: "disk v6 ?t = Some (e0\<lparr>en_uuid := en_uuid e, en_hash := h\<rparr>)"
    by (auto simp: fs_rename_def Let_def split: option.splits)
  have "\<exists>e' dp de. p_data pr = Some dp \<and> disk v dp = Some de
           \<and> disk v' ?t = Some e'
           \<and> en_type e' = ''file'' \<and> en_hash e' = h \<and> en_uuid e' = en_uuid e
           \<and> en_content e' = en_content e @ en_content de"
    if na: "\<forall>dp. p_data pr = Some dp \<longrightarrow> \<not> at_or_under dp ?t"
  proof -
    from na have "disk v' ?t = disk v6 ?t"
      unfolding v' by (intro disk_cb) simp
    with v6 e0' dp de show ?thesis by simp
  qed
  with x2 H f al hh xh show ?thesis by simp
qed

lemma DIR_root1_append:
  "DIR vfs1 alice (append_props ''11111111-1111-4111-8111-111111111111'' n h) = Inr root1"
  by (simp add: DIR_def truthy_def uuidMap_get_def userCanWriteDrive_def append_world)

lemma DIR_photos_append:
  "DIR vfs1 alice (append_props ''22222222-2222-4222-8222-222222222222'' n h) = Inr photos"
  by (simp add: DIR_def truthy_def uuidMap_get_def userCanWriteDrive_def append_world)

lemma target_b_bin:
  "path_join [absolutePath vfs1 root1,
              p_name (append_props ''11111111-1111-4111-8111-111111111111'' ''b.bin'' h)] = b_bin_path"
  by (simp add: append_world absolutePath_def path_join_def normalize_def)

lemma target_c_bin:
  "path_join [absolutePath vfs1 root1,
              p_name (append_props ''11111111-1111-4111-8111-111111111111'' ''c.bin'' h)] = c_bin_path"
  by (simp add: append_world absolutePath_def path_join_def normalize_def)

lemma target_a_jpg:
  "path_join [absolutePath vfs1 photos,
              p_name (append_props ''22222222-2222-4222-8222-222222222222'' ''a.jpg'' h)] = a_jpg_path"
  by (simp add: append_world absolutePath_def path_join_def normalize_def)

lemma disk_vfs1:
  "disk vfs1 b_bin_path = Some b_bin_entry" "disk vfs1 c_bin_path = Some c_bin_entry"
  "disk vfs1 a_jpg_path = Some a_jpg_entry"
  by (simp_all add: append_world)

lemma upload_elsewhere:
  "\<not> at_or_under upload_path b_bin_path" "\<not> at_or_under upload_path c_bin_path"
  "\<not> at_or_under upload_path a_jpg_path"
  by (simp_all add: at_or_under_def append_world)

lemma APPEND_b_bin_ok:
  "fst (APPEND stand_in_sha (io0 500) vfs1 alice
          (append_props ''11111111-1111-4111-8111-111111111111'' ''b.bin'' (Some ''ab'')))
     = Callback (Inr \<lparr>x_uuid = ''44444444-4444-4444-8444-444444444444'', x_type = ''file'',
                      x_name = ''b.bin'', x_mtime = 900, x_size = 1073741831,
                      x_hash = Some ''11'', x_tags = None\<rparr>)"
  by (simp add: append_defs append_world)

lemma APPEND_a_jpg_ok:
  "fst (APPEND stand_in_sha (io0 300) vfs1 alice
          (append_props ''22222222-2222-4222-8222-222222222222'' ''a.jpg'' None))
     = Callback (Inr \<lparr>x_uuid = ''33333333-3333-4333-8333-333333333333'', x_type = ''file'',
                      x_name = ''a.jpg'', x_mtime = 900, x_size = 7,
                      x_hash = Some ''cd'', x_tags = None\<rparr>)"
  by (simp add: append_defs append_world)

text \<open>
  C4, as the claim states it, fails in its last part: the failing \<open>APPEND\<close> does
  change the disk, since the callback wrapper removes the caller's temporary data file on
  every outcome. On \<open>c.bin\<close> (5 bytes) the error is \<open>EALIGN\<close>, and the uploaded file
  that was there before is gone afterwards.
\<close>

theorem APPEND_misaligned_counterexample:
  "disk vfs1 upload_path = Some upload_entry
   \<and> fst (APPEND stand_in_sha (io0 500) vfs1 alice
            (append_props ''11111111-1111-4111-8111-111111111111'' ''c.bin'' (Some ''ab'')))
       = Callback (Inl \<lparr>message = ''not a multiple of 1G'', code = Some ''EALIGN'',
                        xcode = None, status = Some 403\<rparr>)
   \<and> disk (snd (APPEND stand_in_sha (io0 500) vfs1 alice
                   (append_props ''11111111-1111-4111-8111-111111111111'' ''c.bin'' (Some ''ab''))))
        upload_path = None"
  by (simp add: append_defs append_world)

text \<open>
  C4, amended. When the target that \<open>APPEND\<close> resolved is a file whose size is not a
  multiple of \<open>1024 * 1024 * 1024\<close> bytes, the callback receives the error
  \<open>not a multiple of 1G\<close> with code \<open>EALIGN\<close> and status 403. Nothing is changed but
  the caller's temporary data file: the forest is as before, every path that is not at or
  beneath the data file is as before, and the calls made are the read of the target's
  record and that removal (no concatenation, no rename). The unit is the constant of the
  code, the same for every call; and whenever \<open>APPEND\<close> succeeds on a target, the size
  of that target was a multiple of the unit.
\<close>

theorem APPEND_misaligned:
  assumes d: "DIR v u pr = Inr dir"
    and e: "disk v (path_join [absolutePath v dir, p_name pr]) = Some e"
    and f: "en_type e = ''file''"
  shows "(content_size (en_content e) mod (1024 * 1024 * 1024) \<noteq> 0 \<longrightarrow>
            fst (APPEND sha io v u pr)
              = Callback (Inl \<lparr>message = ''not a multiple of 1G'', code = Some ''EALIGN'',
                               xcode = None, status = Some 403\<rparr>)
            \<and> uuidMap (snd (APPEND sha io v u pr)) = uuidMap v
            \<and> timedFiles (snd (APPEND sha io v u pr)) = timedFiles v
            \<and> calls (snd (APPEND sha io v u pr))
                = calls v @ ReadXstat (path_join [absolutePath v dir, p_name pr])
                    # (case p_data pr of None \<Rightarrow> [] | Some dp \<Rightarrow> if dp \<noteq> [] then [Rimraf dp] else [])
            \<and> (\<forall>q. (\<forall>dp. p_data pr = Some dp \<longrightarrow> \<not> at_or_under dp q) \<longrightarrow>
                     disk (snd (APPEND sha io v u pr)) q = disk v q))
         \<and> (fst (APPEND sha io v u pr) = Callback (Inr x2) \<longrightarrow>
               content_size (en_content e) mod (1024 * 1024 * 1024) = 0)"
proof (intro conjI impI allI)
  assume m: "content_size (en_content e) mod (1024 * 1024 * 1024) \<noteq> 0"
  then have m': "content_size (en_content e) mod 1073741824 \<noteq> 0" by simp
  note a = APPEND_at_size_check [OF d e f m', of sha io]
  show "fst (APPEND sha io v u pr)
          = Callback (Inl \<lparr>message = ''not a multiple of 1G'', code = Some ''EALIGN'',
                           xcode = None, status = Some 403\<rparr>)"
    by (simp add: a cb_frame ealign_def)
  show "uuidMap (snd (APPEND sha io v u pr)) = uuidMap v" by (simp add: a cb_frame)
  show "timedFiles (snd (APPEND sha io v u pr)) = timedFiles v" by (simp add: a cb_frame)
  show "calls (snd (APPEND sha io v u pr))
          = calls v @ ReadXstat (path_join [absolutePath v dir, p_name pr])
              # (case p_data pr of None \<Rightarrow> [] | Some dp \<Rightarrow> if dp \<noteq> [] then [Rimraf dp] else [])"
    by (simp add: a cb_frame)
  fix q assume "\<forall>dp. p_data pr = Some dp \<longrightarrow> \<not> at_or_under dp q"
  then show "disk (snd (APPEND sha io v u pr)) q = disk v q"
    by (simp add: a disk_cb)
next
  assume s: "fst (APPEND sha io v u pr) = Callback (Inr x2)"
  then have "APPEND sha io v u pr = (Callback (Inr x2), snd (APPEND sha io v u pr))"
    by (simp add: prod_eq_iff)
  from APPEND_success [OF this d e]
  show "content_size (en_content e) mod (1024 * 1024 * 1024) = 0" by simp
qed

theorem APPEND_misaligned_witness:
  "content_size (en_content c_bin_entry) mod (1024 * 1024 * 1024) = 5
   \<and> fst (APPEND stand_in_sha (io0 500) vfs1 alice
            (append_props ''11111111-1111-4111-8111-111111111111'' ''c.bin'' (Some ''ab'')))
       = Callback (Inl \<lparr>message = ''not a multiple of 1G'', code = Some ''EALIGN'',
                        xcode = None, status = Some 403\<rparr>)
   \<and> disk (snd (APPEND stand_in_sha (io0 500) vfs1 alice
                   (append_props ''11111111-1111-4111-8111-111111111111'' ''c.bin'' (Some ''ab''))))
        c_bin_path = Some c_bin_entry
   \<and> calls (snd (APPEND stand_in_sha (io0 500) vfs1 alice
                   (append_props ''11111111-1111-4111-8111-111111111111'' ''c.bin'' (Some ''ab''))))
       = [ReadXstat c_bin_path, Rimraf upload_path]
   \<and> content_size (en_content b_bin_entry) mod (1024 * 1024 * 1024) = 0"
proof -
  let ?pc = "append_props ''11111111-1111-4111-8111-111111111111'' ''c.bin'' (Some ''ab'')"
  let ?pb = "append_props ''11111111-1111-4111-8111-111111111111'' ''b.bin'' (Some ''ab'')"
  have ec: "disk vfs1 (path_join [absolutePath vfs1 root1, p_name ?pc]) = Some c_bin_entry"
    by (simp only: target_c_bin disk_vfs1)
  have eb: "disk vfs1 (path_join [absolutePath vfs1 root1, p_name ?pb]) = Some b_bin_entry"
    by (simp only: target_b_bin disk_vfs1)
  have fc: "en_type c_bin_entry = ''file''" by (simp add: c_bin_entry_def)
  have fb: "en_type b_bin_entry = ''file''" by (simp add: b_bin_entry_def)
  have m: "content_size (en_content c_bin_entry) mod (1024 * 1024 * 1024) = 5"
    by (simp add: c_bin_entry_def content_size_def)
  have dp: "p_data ?pc = Some upload_path" by (simp add: append_props_def)
  have c0: "calls vfs1 = []" by (simp add: append_world)
  have u: "upload_path \<noteq> []" by (simp add: upload_path_def)
  note c = APPEND_misaligned [OF DIR_root1_append ec fc, of stand_in_sha "io0 500",
      THEN conjunct1, rule_format]
  note b = APPEND_misaligned [OF DIR_root1_append eb fb, of stand_in_sha "io0 500",
      THEN conjunct2, rule_format, OF APPEND_b_bin_ok]
  from m have m0: "content_size (en_content c_bin_entry) mod (1024 * 1024 * 1024) \<noteq> 0" by simp
  from c [OF m0] have 1: "fst (APPEND stand_in_sha (io0 500) vfs1 alice ?pc)
       = Callback (Inl \<lparr>message = ''not a multiple of 1G'', code = Some ''EALIGN'',
                        xcode = None, status = Some 403\<rparr>)"
    and 2: "calls (snd (APPEND stand_in_sha (io0 500) vfs1 alice ?pc))
              = [ReadXstat c_bin_path, Rimraf upload_path]"
    and 3: "disk (snd (APPEND stand_in_sha (io0 500) vfs1 alice ?pc)) c_bin_path = Some c_bin_entry"
    using upload_elsewhere(2) by (simp_all add: dp c0 u target_c_bin disk_vfs1)
  from m 1 2 3 b show ?thesis by simp
qed

text \<open>
  C3, as the claim states it, fails for a target whose size is not a multiple of the unit:
  the size is checked before the hash, so \<open>APPEND\<close> on \<open>c.bin\<close> (5 bytes, recorded hash
  \<open>ab\<close>) with the stale hash \<open>00\<close> fails with \<open>EALIGN\<close>, not with \<open>EHASHMISMATCH\<close>.
\<close>

theorem APPEND_stale_hash_counterexample:
  "en_hash c_bin_entry = Some ''ab''
   \<and> p_hash (append_props ''11111111-1111-4111-8111-111111111111'' ''c.bin'' (Some ''00'')) = Some ''00''
   \<and> disk vfs1 c_bin_path = Some c_bin_entry
   \<and> fst (APPEND stand_in_sha (io0 500) vfs1 alice
            (append_props ''11111111-1111-4111-8111-111111111111'' ''c.bin'' (Some ''00'')))
       = Callback (Inl \<lparr>message = ''not a multiple of 1G'', code = Some ''EALIGN'',
                        xcode = None, status = Some 403\<rparr>)"
  by (simp add: append_defs append_world)

text \<open>
  C3, amended. When the target that \<open>APPEND\<close> resolved is a file whose size is a
  multiple of the unit and the supplied hash differs from the recorded hash, the callback
  receives the error \<open>hash mismatch\<close> with code \<open>EHASHMISMATCH\<close> and status 403.
  Nothing is changed but the caller's temporary data file: the forest is as before, every
  path that is not at or beneath the data file (the target among them, with its content,
  uuid and hash) is as before, and the calls made are the read of the target's record and
  that removal, so neither concatenation nor replacement was attempted.
\<close>

theorem APPEND_stale_hash:
  assumes d: "DIR v u pr = Inr dir"
    and e: "disk v (path_join [absolutePath v dir, p_name pr]) = Some e"
    and f: "en_type e = ''file''"
    and al: "content_size (en_content e) mod (1024 * 1024 * 1024) = 0"
    and mm: "p_hash pr \<noteq> en_hash e"
  shows "fst (APPEND sha io v u pr)
           = Callback (Inl \<lparr>message = ''hash mismatch, actual: ''
                                @ (case en_hash e of None \<Rightarrow> ''undefined'' | Some h \<Rightarrow> h),
                            code = Some ''EHASHMISMATCH'', xcode = None, status = Some 403\<rparr>)
         \<and> uuidMap (snd (APPEND sha io v u pr)) = uuidMap v
         \<and> timedFiles (snd (APPEND sha io v u pr)) = timedFiles v
         \<and> calls (snd (APPEND sha io v u pr))
             = calls v @ ReadXstat (path_join [absolutePath v dir, p_name pr])
                 # (case p_data pr of None \<Rightarrow> [] | Some dp \<Rightarrow> if dp \<noteq> [] then [Rimraf dp] else [])
         \<and> (\<forall>q. (\<forall>dp. p_data pr = Some dp \<longrightarrow> \<not> at_or_under dp q) \<longrightarrow>
                  disk (snd (APPEND sha io v u pr)) q = disk v q)"
proof (intro conjI impI allI)
  from al have al': "content_size (en_content e) mod 1073741824 = 0" by simp
  from mm have mm': "en_hash e \<noteq> p_hash pr" by simp
  note a = APPEND_at_hash_check [OF d e f al' mm', of sha io]
  show "fst (APPEND sha io v u pr)
           = Callback (Inl \<lparr>message = ''hash mismatch, actual: ''
                                @ (case en_hash e of None \<Rightarrow> ''undefined'' | Some h \<Rightarrow> h),
                            code = Some ''EHASHMISMATCH'', xcode = None, status = Some 403\<rparr>)"
    by (simp add: a cb_frame ehashmismatch_def)
  show "uuidMap (snd (APPEND sha io v u pr)) = uuidMap v" by (simp add: a cb_frame)
  show "timedFiles (snd (APPEND sha io v u pr)) = timedFiles v" by (simp add: a cb_frame)
  show "calls (snd (APPEND sha io v u pr))
          = calls v @ ReadXstat (path_join [absolutePath v dir, p_name pr])
              # (case p_data pr of None \<Rightarrow> [] | Some dp \<Rightarrow> if dp \<noteq> [] then [Rimraf dp] else [])"
    by (simp add: a cb_frame)
  fix q assume "\<forall>dp. p_data pr = Some dp \<longrightarrow> \<not> at_or_under dp q"
  then show "disk (snd (APPEND sha io v u pr)) q = disk v q"
    by (simp add: a disk_cb)
qed

theorem APPEND_stale_hash_witness:
  "fst (APPEND stand_in_sha (io0 500) vfs1 alice
          (append_props ''11111111-1111-4111-8111-111111111111'' ''b.bin'' (Some ''00'')))
     = Callback (Inl \<lparr>message = ''hash mismatch, actual: ab'', code = Some ''EHASHMISMATCH'',
                      xcode = None, status = Some 403\<rparr>)
   \<and> disk (snd (APPEND stand_in_sha (io0 500) vfs1 alice
                   (append_props ''11111111-1111-4111-8111-111111111111'' ''b.bin'' (Some ''00''))))
        b_bin_path = Some b_bin_entry
   \<and> calls (snd (APPEND stand_in_sha (io0 500) vfs1 alice
                   (append_props ''11111111-1111-4111-8111-111111111111'' ''b.bin'' (Some ''00''))))
       = [ReadXstat b_bin_path, Rimraf upload_path]"
proof -
  let ?pb = "append_props ''11111111-1111-4111-8111-111111111111'' ''b.bin'' (Some ''00'')"
  have eb: "disk vfs1 (path_join [absolutePath vfs1 root1, p_name ?pb]) = Some b_bin_entry"
    by (simp only: target_b_bin disk_vfs1)
  have fb: "en_type b_bin_entry = ''file''" by (simp add: b_bin_entry_def)
  have al: "content_size (en_content b_bin_entry) mod (1024 * 1024 * 1024) = 0"
    by (simp add: b_bin_entry_def content_size_def)
  have mm: "p_hash ?pb \<noteq> en_hash b_bin_entry"
    by (simp add: append_props_def b_bin_entry_def)
  have dp: "p_data ?pb = Some upload_path" by (simp add: append_props_def)
  have c0: "calls vfs1 = []" by (simp add: append_world)
  have u: "upload_path \<noteq> []" by (simp add: upload_path_def)
  have h: "en_hash b_bin_entry = Some ''ab''" by (simp add: b_bin_entry_def)
  from APPEND_stale_hash [OF DIR_root1_append eb fb al mm, of stand_in_sha "io0 500"]
    upload_elsewhere(1)
  show ?thesis by (simp add: dp c0 u h target_b_bin disk_vfs1)
qed

lemma APPEND_success_resolves:
  assumes s: "APPEND sha io v u pr = (Callback (Inr x2), v')"
  shows "\<exists>dir e. DIR v u pr = Inr dir
           \<and> disk v (path_join [absolutePath v dir, p_name pr]) = Some e"
proof -
  from s obtain dir where d: "DIR v u pr = Inr dir"
    by (cases "DIR v u pr") (auto simp: APPEND_def cb_def)
  from s d obtain e where "disk v (path_join [absolutePath v dir, p_name pr]) = Some e"
    by (cases "disk v (path_join [absolutePath v dir, p_name pr])")
      (auto simp: APPEND_def cb_def readXstat_def Let_def)
  with d show ?thesis by blast
qed

text \<open>
  C2. When \<open>APPEND\<close> succeeds, it had resolved a directory and found a file at the
  target. If the size of that file was not zero, the hash of the record reported is the
  digest of the bytes decoded from the old recorded hash followed by the bytes decoded
  from the hash of the appended data (both decoded from hex); if the size was zero, it is
  the hash of the appended data as supplied. That hash, with the old uuid, is what the
  disk records for the target afterwards (provided the temporary data file is not the
  target itself or a directory above it).
\<close>

theorem APPEND_combines_hashes:
  assumes s: "APPEND sha io v u pr = (Callback (Inr x2), v')"
  shows "\<exists>dir e. DIR v u pr = Inr dir
           \<and> disk v (path_join [absolutePath v dir, p_name pr]) = Some e
           \<and> en_type e = ''file''
           \<and> (content_size (en_content e) \<noteq> 0 \<longrightarrow>
                 (\<exists>h dh. en_hash e = Some h \<and> p_sha256 pr = Some dh
                    \<and> x_hash x2 = Some (sha (fromHex h @ fromHex dh))))
           \<and> (content_size (en_content e) = 0 \<longrightarrow> x_hash x2 = p_sha256 pr)
           \<and> ((\<forall>dp. p_data pr = Some dp \<longrightarrow>
                    \<not> at_or_under dp (path_join [absolutePath v dir, p_name pr])) \<longrightarrow>
                (\<exists>e'. disk v' (path_join [absolutePath v dir, p_name pr]) = Some e'
                   \<and> en_hash e' = x_hash x2 \<and> en_uuid e' = en_uuid e))"
proof -
  from APPEND_success_resolves [OF s] obtain dir e where d: "DIR v u pr = Inr dir"
    and e: "disk v (path_join [absolutePath v dir, p_name pr]) = Some e" by blast
  from APPEND_success [OF s d e] obtain h where
    f: "en_type e = ''file''" and
    hh: "en_hash e = p_hash pr"
    and H: "(if content_size (en_content e) = 0 then Inr (p_sha256 pr)
             else map_sum id Some (combineHash sha (p_hash pr) (p_sha256 pr))) = Inr h"
    and x: "x_hash x2 = h"
    and dk: "(\<forall>dp. p_data pr = Some dp \<longrightarrow>
                \<not> at_or_under dp (path_join [absolutePath v dir, p_name pr])) \<longrightarrow>
             (\<exists>e' dp de. p_data pr = Some dp \<and> disk v dp = Some de
                \<and> disk v' (path_join [absolutePath v dir, p_name pr]) = Some e'
                \<and> en_type e' = ''file'' \<and> en_hash e' = h \<and> en_uuid e' = en_uuid e
                \<and> en_content e' = en_content e @ en_content de)"
    by blast
  have 1: "content_size (en_content e) \<noteq> 0 \<longrightarrow> (\<exists>h dh. en_hash e = Some h \<and> p_sha256 pr = Some dh
              \<and> x_hash x2 = Some (sha (fromHex h @ fromHex dh)))"
    using H hh x by (auto simp: combineHash_def split: option.splits)
  have 2: "content_size (en_content e) = 0 \<longrightarrow> x_hash x2 = p_sha256 pr"
    using H x by (auto split: if_splits)
  have 3: "(\<forall>dp. p_data pr = Some dp \<longrightarrow>
                  \<not> at_or_under dp (path_join [absolutePath v dir, p_name pr])) \<longrightarrow>
           (\<exists>e'. disk v' (path_join [absolutePath v dir, p_name pr]) = Some e'
                 \<and> en_hash e' = x_hash x2 \<and> en_uuid e' = en_uuid e)"
  proof
    assume "\<forall>dp. p_data pr = Some dp \<longrightarrow>
                  \<not> at_or_under dp (path_join [absolutePath v dir, p_name pr])"
    with dk obtain e' where
      "disk v' (path_join [absolutePath v dir, p_name pr]) = Some e'"
      "en_hash e' = h" "en_uuid e' = en_uuid e" by blast
    with x show "\<exists>e'. disk v' (path_join [absolutePath v dir, p_name pr]) = Some e'
                 \<and> en_hash e' = x_hash x2 \<and> en_uuid e' = en_uuid e" by simp
  qed
  show ?thesis
    by (rule exI [of _ dir], rule exI [of _ e]) (intro conjI d e f 1 2 3)
qed

theorem APPEND_combines_hashes_witness:
  "content_size (en_content b_bin_entry) = 1073741824
   \<and> en_hash b_bin_entry = Some ''ab''
   \<and> stand_in_sha (fromHex ''ab'' @ fromHex ''cd'') = ''11''
   \<and> fst (APPEND stand_in_sha (io0 500) vfs1 alice
        (append_props ''11111111-1111-4111-8111-111111111111'' ''b.bin'' (Some ''ab'')))
       = Callback (Inr \<lparr>x_uuid = ''44444444-4444-4444-8444-444444444444'', x_type = ''file'',
              x_name = ''b.bin'', x_mtime = 900, x_size = 1073741831,
              x_hash = Some ''11'', x_tags = None\<rparr>)
   \<and> (\<exists>e'. disk (snd (APPEND stand_in_sha (io0 500) vfs1 alice
                (append_props ''11111111-1111-4111-8111-111111111111'' ''b.bin'' (Some ''ab''))))
               b_bin_path = Some e'
          \<and> en_hash e' = Some ''11'' \<and> en_uuid e' = en_uuid b_bin_entry)
   \<and> content_size (en_content a_jpg_entry) = 0
   \<and> fst (APPEND stand_in_sha (io0 300) vfs1 alice
        (append_props ''22222222-2222-4222-8222-222222222222'' ''a.jpg'' None))
       = Callback (Inr \<lparr>x_uuid = ''33333333-3333-4333-8333-333333333333'', x_type = ''file'',
              x_name = ''a.jpg'', x_mtime = 900, x_size = 7,
              x_hash = Some ''cd'', x_tags = None\<rparr>)"
proof -
  let ?pb = "append_props ''11111111-1111-4111-8111-111111111111'' ''b.bin'' (Some ''ab'')"
  let ?pa = "append_props ''22222222-2222-4222-8222-222222222222'' ''a.jpg'' None"
  let ?xb = "\<lparr>x_uuid = ''44444444-4444-4444-8444-444444444444'', x_type = ''file'',
              x_name = ''b.bin'', x_mtime = 900, x_size = 1073741831,
              x_hash = Some ''11'', x_tags = None\<rparr>"
  let ?xa = "\<lparr>x_uuid = ''33333333-3333-4333-8333-333333333333'', x_type = ''file'',
              x_name = ''a.jpg'', x_mtime = 900, x_size = 7,
              x_hash = Some ''cd'', x_tags = None\<rparr>"
  have sb: "APPEND stand_in_sha (io0 500) vfs1 alice ?pb
              = (Callback (Inr ?xb), snd (APPEND stand_in_sha (io0 500) vfs1 alice ?pb))"
    by (simp add: APPEND_b_bin_ok prod_eq_iff)
  have sa: "APPEND stand_in_sha (io0 300) vfs1 alice ?pa
              = (Callback (Inr ?xa), snd (APPEND stand_in_sha (io0 300) vfs1 alice ?pa))"
    by (simp add: APPEND_a_jpg_ok prod_eq_iff)
  have eb: "disk vfs1 (path_join [absolutePath vfs1 root1, p_name ?pb]) = Some b_bin_entry"
    by (simp only: target_b_bin disk_vfs1)
  have ea: "disk vfs1 (path_join [absolutePath vfs1 photos, p_name ?pa]) = Some a_jpg_entry"
    by (simp only: target_a_jpg disk_vfs1)
  have zb: "content_size (en_content b_bin_entry) = 1073741824"
    by (simp add: b_bin_entry_def content_size_def)
  have za: "content_size (en_content a_jpg_entry) = 0"
    by (simp add: a_jpg_entry_def content_size_def)
  have hb: "en_hash b_bin_entry = Some ''ab''" by (simp add: b_bin_entry_def)
  have dpb: "p_data ?pb = Some upload_path" "p_sha256 ?pb = Some ''cd''"
    by (simp_all add: append_props_def)
  have dpa: "p_sha256 ?pa = Some ''cd''" by (simp add: append_props_def)
  from APPEND_combines_hashes [OF sb] obtain dir e where
    "DIR vfs1 alice ?pb = Inr dir" "disk vfs1 (path_join [absolutePath vfs1 dir, p_name ?pb]) = Some e"
    and nz: "content_size (en_content e) \<noteq> 0 \<longrightarrow>
               (\<exists>h dh. en_hash e = Some h \<and> p_sha256 ?pb = Some dh
                  \<and> x_hash ?xb = Some (stand_in_sha (fromHex h @ fromHex dh)))"
    and dk: "(\<forall>dp. p_data ?pb = Some dp \<longrightarrow>
                \<not> at_or_under dp (path_join [absolutePath vfs1 dir, p_name ?pb])) \<longrightarrow>
             (\<exists>e'. disk (snd (APPEND stand_in_sha (io0 500) vfs1 alice ?pb))
                      (path_join [absolutePath vfs1 dir, p_name ?pb]) = Some e'
                \<and> en_hash e' = x_hash ?xb \<and> en_uuid e' = en_uuid e)"
    by blast
  then have de: "dir = root1" "e = b_bin_entry"
    using eb by (simp_all add: DIR_root1_append)
  from nz dk de zb hb dpb upload_elsewhere(1)
  have 1: "stand_in_sha (fromHex ''ab'' @ fromHex ''cd'') = ''11''"
    and 2: "\<exists>e'. disk (snd (APPEND stand_in_sha (io0 500) vfs1 alice ?pb)) b_bin_path = Some e'
              \<and> en_hash e' = Some ''11'' \<and> en_uuid e' = en_uuid b_bin_entry"
    by (simp_all add: target_b_bin stand_in_sha_def hexval_def)
  from APPEND_combines_hashes [OF sa] obtain dir' e' where
    "DIR vfs1 alice ?pa = Inr dir'"
    "disk vfs1 (path_join [absolutePath vfs1 dir', p_name ?pa]) = Some e'"
    and z: "content_size (en_content e') = 0 \<longrightarrow> x_hash ?xa = p_sha256 ?pa"
    by (elim exE conjE) (rule that)
  then have "dir' = photos" "e' = a_jpg_entry"
    using ea by (simp_all add: DIR_photos_append)
  with z za dpa have 3: "x_hash ?xa = Some ''cd''" by simp
  from 1 2 zb za hb APPEND_b_bin_ok APPEND_a_jpg_ok show ?thesis
    by (intro conjI)
qed


subsection \<open>\<open>QUERY\<close>: the permission loop\<close>

lemmas query_defs = QUERY_def parse_query_def parse_places_def parse_order_def parse_start_def
  parse_count_def parse_groupBy_def parse_types_def parse_tags_def and_then_def ok_def EInval_def
  isUUID_def hexval_def loop_indices_def array_to_number_def from_Set_def truthy_def
  iterateList_def visited_def match_def name_ok_def types_ok_def tags_ok_def place_index_def
  make_record_def info_of_def count_reached_def path_join_def normalize_def with_status_def
  Error_def Let_def parseInt_def to_double_def is_space_def userCanWriteDrive_def

text \<open>
  The loop that should check the places compares its index with the array \<open>places\<close>
  itself, not with its length. An array of uuids is not a number, so the comparison is
  false at once: the loop body never runs, and \<open>QUERY\<close> never answers
  \<open>place ... not found\<close>.
\<close>

lemma join_with_prefix: "\<exists>rest. join_with sep (s # ss) = s @ rest"
  by (cases ss) auto

lemma isUUID_hyphen: "isUUID s \<Longrightarrow> length s = 36 \<and> s ! 8 = CHR ''-''"
  unfolding isUUID_def list_all_iff by (auto dest!: bspec [where x = 8])

lemma array_of_uuids_is_NaN:
  assumes "list_all isUUID places" "places \<noteq> []"
  shows "array_to_number places = None"
proof -
  from assms obtain s ss where p: "places = s # ss" by (cases places) auto
  with assms have u: "isUUID s" by simp
  from join_with_prefix obtain rest where j: "join_with '','' (s # ss) = s @ rest" by blast
  from isUUID_hyphen [OF u] have "CHR ''-'' \<in> set s"
    using nth_mem [of 8 s] by auto
  moreover have "\<not> (48 \<le> (of_char CHR ''-'' :: nat) \<and> (of_char CHR ''-'' :: nat) \<le> 57)"
    by simp
  ultimately have "\<not> list_all (\<lambda>c. 48 \<le> (of_char c :: nat) \<and> (of_char c :: nat) \<le> 57) (s @ rest)"
    unfolding list_all_iff by (metis UnI1 set_append)
  with p j show ?thesis by (simp add: array_to_number_def)
qed

lemma permission_loop_never_runs:
  "list_all isUUID places \<Longrightarrow> check_permission v u places (loop_indices places) = None"
proof (cases "places = []")
  case True
  then show ?thesis by (simp add: loop_indices_def array_to_number_def)
next
  case False
  assume "list_all isUUID places"
  from array_of_uuids_is_NaN [OF this False] show ?thesis by (simp add: loop_indices_def)
qed

lemma parse_places_never_not_found:
  "parse_places v u q = EInval ''places not provided''
   \<or> parse_places v u q = EInval ''invalid places''
   \<or> parse_places v u q = EInval ''places has duplicate elements''
   \<or> (\<exists>ps. q_places q = Some ps \<and> parse_places v u q = ok (split_on CHR ''.'' ps))"
  by (auto simp: parse_places_def Let_def permission_loop_never_runs split: option.splits)

text \<open>
  C1. Bob cannot write Alice's drive. His \<open>QUERY\<close> with the place \<open>photos\<close>, a
  directory of that drive, does not fail: the callback receives the path of a temporary
  file, and that file holds the record of \<open>a.jpg\<close>, a file under \<open>photos\<close>. (For a
  place that is not in the forest he receives an empty array, not an error either.)
\<close>

theorem QUERY_unwritable_place:
  "\<not> userCanWriteDrive bob drive1
   \<and> QUERY lc tree qio0 vfs0 bob (query_props ''22222222-2222-4222-8222-222222222222'')
     = (Callback (Inr (TmpFile ''/data/tmp/77777777-7777-4777-8777-777777777777'')),
        Some (''/data/tmp/77777777-7777-4777-8777-777777777777'',
              [\<lparr>r_uuid = ''33333333-3333-4333-8333-333333333333'',
                r_pdir = ''22222222-2222-4222-8222-222222222222'',
                r_name = ''a.jpg'', r_size = Some 0, r_mtime = 300, r_hash = None,
                r_tags = Some [1], r_metadata = None, r_place = 0,
                r_archived = None, r_bctime = None, r_bmtime = None,
                r_namepath = [''a.jpg'']\<rparr>]))
   \<and> QUERY lc tree qio0 vfs0 bob (query_props ''99999999-9999-4999-8999-999999999999'')
     = (Callback (Inr (TmpFile ''/data/tmp/77777777-7777-4777-8777-777777777777'')),
        Some (''/data/tmp/77777777-7777-4777-8777-777777777777'', []))"
  by (simp add: query_defs world_defs qio0_def query_props_def upt_rec)

subsection \<open>\<open>QUERY\<close>: how the result is delivered\<close>

lemma QUERY_chrono:
  assumes "parse_query v u q = Callback (Inr a)" "a_order a = ''newest'' \<or> a_order a = ''oldest''"
  shows "QUERY lc tree qio v u q = iterateList lc qio v u a"
  using assms by (simp add: QUERY_def)

text \<open>
  C9, as the claim states it, fails for a small result set: Alice's query for \<open>photos\<close>
  in the example installation matches one file, and the callback receives the path of a
  temporary file that holds the one record, not an array in memory.
\<close>

theorem QUERY_small_result_counterexample:
  "QUERY ascii_lower no_tree qio0 vfs0 alice (query_props ''22222222-2222-4222-8222-222222222222'')
     = (Callback (Inr (TmpFile ''/data/tmp/77777777-7777-4777-8777-777777777777'')),
        Some (''/data/tmp/77777777-7777-4777-8777-777777777777'',
              [\<lparr>r_uuid = ''33333333-3333-4333-8333-333333333333'',
                r_pdir = ''22222222-2222-4222-8222-222222222222'',
                r_name = ''a.jpg'', r_size = Some 0, r_mtime = 300, r_hash = None,
                r_tags = Some [1], r_metadata = None, r_place = 0,
                r_archived = None, r_bctime = None, r_bmtime = None,
                r_namepath = [''a.jpg'']\<rparr>]))"
  by (simp add: query_defs world_defs qio0_def query_props_def upt_rec)

text \<open>
  C9, amended. Every chronological \<open>QUERY\<close> that is not \<open>countOnly\<close> creates the
  temporary file and writes the array of records into it, whatever the number of records;
  the callback receives the path of that file, or the error of the last write. It never
  receives an array in memory.
\<close>

theorem QUERY_result_is_temp_file:
  assumes p: "parse_query v u q = Callback (Inr a)"
    and o: "a_order a = ''newest'' \<or> a_order a = ''oldest''"
    and c: "a_countOnly a \<noteq> Some True"
  shows "\<exists>recs. snd (QUERY lc tree qio v u q) = Some (path_join [tmpDir v, qio_uuid qio], recs)
           \<and> (case qio_write_err qio of
                 None \<Rightarrow> fst (QUERY lc tree qio v u q)
                           = Callback (Inr (TmpFile (path_join [tmpDir v, qio_uuid qio])))
               | Some err \<Rightarrow> fst (QUERY lc tree qio v u q) = Callback (Inl err))"
  using c by (simp add: QUERY_chrono [OF p o] iterateList_def Let_def split: option.splits)

lemma parse_newest3: "parse_query vfs2 alice newest3 = Callback (Inr newest3_args)"
  by (simp add: query_defs query_world upt_rec)



theorem QUERY_result_is_temp_file_witness:
  "\<exists>recs. snd (QUERY ascii_lower no_tree qio0 vfs2 alice newest3)
            = Some (path_join [tmpDir vfs2, qio_uuid qio0], recs)
         \<and> fst (QUERY ascii_lower no_tree qio0 vfs2 alice newest3)
            = Callback (Inr (TmpFile (path_join [tmpDir vfs2, qio_uuid qio0])))"
proof -
  have o: "a_order newest3_args = ''newest'' \<or> a_order newest3_args = ''oldest''"
    by (simp add: newest3_args_def)
  have c: "a_countOnly newest3_args \<noteq> Some True" by (simp add: newest3_args_def)
  have w: "qio_write_err qio0 = None" by (simp add: qio0_def)
  from QUERY_result_is_temp_file [OF parse_newest3 o c, where tree = no_tree and qio = qio0 and lc = ascii_lower] w
  show ?thesis by simp
qed

subsection \<open>\<open>QUERY\<close>: the newest files\<close>






lemma key_less_trans: "key_less a b \<Longrightarrow> key_less b c \<Longrightarrow> key_less a c"
  by (auto simp: key_less_def)



end
